theory Spec2Isabelle
  imports Main "HOL-Library.Word" "HOL-Library.Char_ord" "HOL-Library.AList"
begin

section \<open>Prologot: the binding between Godot values and SWI-Prolog terms\<close>

text \<open>
  The development embeds \<^verbatim>\<open>src/Prologot.cpp\<close>. The two collaborators of the
  class, the Godot runtime and the SWI-Prolog engine, are not part of the repository:
  what the code reads from them is taken from a record of parameters (\<open>env\<close>, below),
  and the terms the engine builds are values of a datatype.
\<close>

subsection \<open>Godot values\<close>

text \<open>
  A \<^verbatim>\<open>double\<close> is carried as its 64-bit pattern: the code never computes with it.
  A Godot \<^verbatim>\<open>String\<close> is a \<open>string\<close>; each \<open>char\<close> stands for the code point of
  the same value, so the model covers the code points below 256.
  \<open>OTHER k\<close> is a Variant of any remaining type (\<^verbatim>\<open>Vector2\<close>, \<^verbatim>\<open>Object\<close>, ...),
  \<open>k\<close> its type tag. A \<^verbatim>\<open>Dictionary\<close> keeps its entries in insertion order.
\<close>

type_synonym double = "64 word"

datatype Variant =
    NIL
  | BOOL bool
  | INT64 "64 word"
  | FLOAT double
  | STRING string
  | ARRAY "Variant list"
  | DICTIONARY "(Variant \<times> Variant) list"
  | OTHER nat

text \<open>\<^verbatim>\<open>dict.has(key)\<close> and \<^verbatim>\<open>dict[key]\<close> (read after \<^verbatim>\<open>has\<close>; a missing key reads as Null).\<close>

definition has :: "(Variant \<times> Variant) list \<Rightarrow> Variant \<Rightarrow> bool" where
  "has dict key = (map_of dict key \<noteq> None)"

definition dict_get :: "(Variant \<times> Variant) list \<Rightarrow> Variant \<Rightarrow> Variant" where
  "dict_get dict key = (case map_of dict key of Some v \<Rightarrow> v | None \<Rightarrow> NIL)"

text \<open>The conversion \<^verbatim>\<open>Array a = variant\<close>: a Variant that is no array converts to the empty one.\<close>

fun to_Array :: "Variant \<Rightarrow> Variant list" where
  "to_Array (ARRAY xs) = xs"
| "to_Array _ = []"

subsection \<open>Text crossing the C boundary\<close>

text \<open>
  \<^verbatim>\<open>s.utf8().get_data()\<close> is the UTF-8 encoding of \<open>s\<close> read as a C string: it ends at
  the first NUL byte. \<^verbatim>\<open>String(const char *)\<close> reads the bytes up to the first NUL,
  each byte as one code point.
\<close>

definition utf8_char :: "char \<Rightarrow> string" where
  "utf8_char c =
     (if (of_char c :: nat) < 128 then [c]
      else [char_of (192 + (of_char c :: nat) div 64), char_of (128 + (of_char c :: nat) mod 64)])"

definition utf8_get_data :: "string \<Rightarrow> string" where
  "utf8_get_data s = takeWhile (\<lambda>c. c \<noteq> CHR 0x00) (concat (map utf8_char s))"

definition String_of_chars :: "string \<Rightarrow> string" where
  "String_of_chars s = takeWhile (\<lambda>c. c \<noteq> CHR 0x00) s"

subsection \<open>Prolog terms\<close>

text \<open>
  The term a \<^verbatim>\<open>term_t\<close> handle refers to. \<open>Empty_list\<close> is the reserved empty list of
  SWI-Prolog 7, which is not the atom \<^verbatim>\<open>'[]'\<close>; \<open>List_pair\<close> is a list cell;
  \<open>Opaque\<close> stands for the kinds the code does not read (blobs, dicts, rationals).
  Prolog integers are unbounded.
\<close>

datatype "term" =
    Var nat
  | Atom string
  | Integer int
  | Float double
  | PString string
  | Empty_list
  | List_pair "term" "term"
  | Compound string "term list"
  | Opaque nat

datatype term_type =
  PL_VARIABLE | PL_ATOM | PL_INTEGER | PL_FLOAT | PL_STRING | PL_NIL | PL_LIST_PAIR | PL_TERM
  | PL_BLOB

fun PL_term_type :: "term \<Rightarrow> term_type" where
  "PL_term_type (Var _) = PL_VARIABLE"
| "PL_term_type (Atom _) = PL_ATOM"
| "PL_term_type (Integer _) = PL_INTEGER"
| "PL_term_type (Float _) = PL_FLOAT"
| "PL_term_type (PString _) = PL_STRING"
| "PL_term_type Empty_list = PL_NIL"
| "PL_term_type (List_pair _ _) = PL_LIST_PAIR"
| "PL_term_type (Compound _ _) = PL_TERM"
| "PL_term_type (Opaque _) = PL_BLOB"

text \<open>The readers of the engine interface; \<open>None\<close> is the return value 0.\<close>

fun PL_get_atom_chars :: "term \<Rightarrow> string option" where
  "PL_get_atom_chars (Atom s) = Some s"
| "PL_get_atom_chars _ = None"

fun PL_get_int64 :: "term \<Rightarrow> 64 word option" where
  "PL_get_int64 (Integer i) =
     (if - (2 ^ 63) \<le> i \<and> i < 2 ^ 63 then Some (word_of_int i) else None)"
| "PL_get_int64 _ = None"

fun PL_get_float :: "term \<Rightarrow> double option" where
  "PL_get_float (Float d) = Some d"
| "PL_get_float _ = None"

fun PL_get_string_chars :: "term \<Rightarrow> string option" where
  "PL_get_string_chars (PString s) = Some s"
| "PL_get_string_chars _ = None"

fun PL_get_list :: "term \<Rightarrow> (term \<times> term) option" where
  "PL_get_list (List_pair h t) = Some (h, t)"
| "PL_get_list _ = None"

text \<open>\<^verbatim>\<open>PL_get_name_arity\<close> succeeds on atoms (arity 0) and on compound terms.\<close>

fun PL_get_name_arity :: "term \<Rightarrow> (string \<times> nat) option" where
  "PL_get_name_arity (Atom s) = Some (s, 0)"
| "PL_get_name_arity (Compound f args) = Some (f, length args)"
| "PL_get_name_arity (List_pair _ _) = Some (''[|]'', 2)"
| "PL_get_name_arity _ = None"

fun PL_get_arg :: "nat \<Rightarrow> term \<Rightarrow> term option" where
  "PL_get_arg i (Compound f args) =
     (if 1 \<le> i \<and> i \<le> length args then Some (args ! (i - 1)) else None)"
| "PL_get_arg i (List_pair h t) = (if i = 1 then Some h else if i = 2 then Some t else None)"
| "PL_get_arg i _ = None"

subsection \<open>The collaborators\<close>

text \<open>
  An engine call made by the class, in the order of the calls; the answers of the engine
  may depend on all the calls made before (the knowledge base is engine state).
\<close>

datatype cvt_flag = CVT_WRITE | CVT_EXCEPTION | BUF_DISCARDABLE | REP_UTF8

datatype call =
    Call_setenv string
  | Call_initialise "string list"
  | Call_cleanup
  | Call_chars_to_term string
  | Call_open_query string "term list"
  | Call_next_solution
  | Call_close_query

text \<open>
  \<open>can_put t\<close>: the engine has room to build \<open>t\<close> (the \<^verbatim>\<open>PL_put_*\<close> and
  \<^verbatim>\<open>PL_cons_*\<close> calls return 0 otherwise).
  \<open>stringify\<close>: Godot's text for a Variant that is no String.
  \<open>booleanize\<close>: Godot's conversion of a Variant to \<^verbatim>\<open>bool\<close>.
  \<open>globalize_path\<close>: \<^verbatim>\<open>ProjectSettings::globalize_path\<close>, when the singleton exists.
  \<open>freed_chars s\<close>: the text read later at a pointer that \<^verbatim>\<open>initialize\<close> took with
  \<^verbatim>\<open>utf8().get_data()\<close> from a temporary holding \<open>s\<close>, the temporary being destroyed at
  the end of the statement; the language does not say what is read there.
  The other fields are the answers of the engine after the calls made so far:
  \<open>initialise_ok\<close> for \<^verbatim>\<open>PL_initialise\<close>, \<open>chars_to_term\<close> the term parsed by
  \<^verbatim>\<open>PL_chars_to_term\<close>, \<open>next_solution\<close> the value of \<^verbatim>\<open>PL_next_solution\<close>,
  \<open>bound\<close> a term as the last solution instantiated it, \<open>exception\<close> the term of
  \<^verbatim>\<open>PL_exception\<close>, \<open>get_chars\<close> the text \<^verbatim>\<open>PL_get_chars\<close> writes for a term,
  \<open>predicate_known\<close> whether \<^verbatim>\<open>PL_predicate\<close> with a NULL module returns a handle.
\<close>

record env =
  can_put :: "term \<Rightarrow> bool"
  stringify :: "Variant \<Rightarrow> string"
  booleanize :: "Variant \<Rightarrow> bool"
  globalize_path :: "(string \<Rightarrow> string) option"
  freed_chars :: "string \<Rightarrow> string"
  initialise_ok :: "call list \<Rightarrow> bool"
  chars_to_term :: "call list \<Rightarrow> string \<Rightarrow> term option"
  next_solution :: "call list \<Rightarrow> int"
  bound :: "call list \<Rightarrow> term \<Rightarrow> term"
  exception :: "call list \<Rightarrow> term option"
  get_chars :: "term \<Rightarrow> cvt_flag list \<Rightarrow> string option"
  predicate_known :: "call list \<Rightarrow> string \<Rightarrow> int \<Rightarrow> bool"

text \<open>The conversion \<^verbatim>\<open>String s = variant\<close>.\<close>

fun to_String :: "env \<Rightarrow> Variant \<Rightarrow> string" where
  "to_String e (STRING s) = s"
| "to_String e v = stringify e v"

subsection \<open>Building terms\<close>

definition PL_put_atom_chars :: "env \<Rightarrow> string \<Rightarrow> term option" where
  "PL_put_atom_chars e s = (if can_put e (Atom s) then Some (Atom s) else None)"

definition PL_put_int64 :: "env \<Rightarrow> 64 word \<Rightarrow> term option" where
  "PL_put_int64 e i = (if can_put e (Integer (sint i)) then Some (Integer (sint i)) else None)"

definition PL_put_float :: "env \<Rightarrow> double \<Rightarrow> term option" where
  "PL_put_float e d = (if can_put e (Float d) then Some (Float d) else None)"

definition PL_put_nil :: "env \<Rightarrow> term option" where
  "PL_put_nil e = (if can_put e Empty_list then Some Empty_list else None)"

definition PL_cons_list :: "env \<Rightarrow> term \<Rightarrow> term \<Rightarrow> term option" where
  "PL_cons_list e h t = (if can_put e (List_pair h t) then Some (List_pair h t) else None)"

definition PL_put_term :: "env \<Rightarrow> term \<Rightarrow> term option" where
  "PL_put_term e t = (if can_put e t then Some t else None)"

text \<open>
  \<^verbatim>\<open>PL_cons_functor_v\<close> on a functor of arity 0 stores the name itself: the result is
  the atom, not a compound term without arguments.
\<close>

definition PL_cons_functor_v :: "env \<Rightarrow> string \<Rightarrow> term list \<Rightarrow> term option" where
  "PL_cons_functor_v e f args =
     (let t = (if args = [] then Atom f else Compound f args)
      in if can_put e t then Some t else None)"

subsection \<open>\<^verbatim>\<open>variant_to_term\<close>\<close>

text \<open>
  The loop of the \<^verbatim>\<open>ARRAY\<close> case, on the converted elements from the last to the
  first: a failed element conversion or a failed \<^verbatim>\<open>PL_cons_list\<close> returns 0.
\<close>

fun cons_loop :: "env \<Rightarrow> term option list \<Rightarrow> term \<Rightarrow> term option" where
  "cons_loop e [] list = Some list"
| "cons_loop e (None # rest) list = None"
| "cons_loop e (Some elem # rest) list =
     (case PL_cons_list e elem list of
        None \<Rightarrow> None
      | Some new_list \<Rightarrow> cons_loop e rest new_list)"

text \<open>The loop of the \<^verbatim>\<open>DICTIONARY\<close> case, filling the argument slots from the first.\<close>

fun args_loop :: "env \<Rightarrow> term option list \<Rightarrow> term list option" where
  "args_loop e [] = Some []"
| "args_loop e (None # rest) = None"
| "args_loop e (Some arg # rest) =
     (case PL_put_term e arg of
        None \<Rightarrow> None
      | Some a \<Rightarrow> (case args_loop e rest of None \<Rightarrow> None | Some as \<Rightarrow> Some (a # as)))"

lemma size_ARRAY_elem: "x \<in> set xs \<Longrightarrow> size x < Suc (size_list size xs)"
  by (induction xs) auto

lemma size_DICTIONARY_value:
  "(k, v) \<in> set dict \<Longrightarrow> size v < Suc (size_list (size_prod size size) dict)"
  by (induction dict) auto

lemma size_dict_get:
  assumes "x \<in> set (to_Array (dict_get dict key))"
  shows "size x < Suc (size_list (size_prod size size) dict)"
proof -
  from assms obtain xs where g: "dict_get dict key = ARRAY xs"
    by (cases "dict_get dict key") auto
  then have "(key, ARRAY xs) \<in> set dict"
    by (auto simp: dict_get_def split: option.splits dest: map_of_SomeD)
  then have "size (ARRAY xs) < Suc (size_list (size_prod size size) dict)"
    by (rule size_DICTIONARY_value)
  moreover from assms g have "size x < Suc (size_list size xs)"
    using size_ARRAY_elem [of x xs] by simp
  ultimately show ?thesis by simp
qed

function variant_to_term :: "env \<Rightarrow> Variant \<Rightarrow> term option" where
  "variant_to_term e NIL = PL_put_atom_chars e ''[]''"
| "variant_to_term e (BOOL b) = PL_put_atom_chars e (if b then ''true'' else ''false'')"
| "variant_to_term e (INT64 i) = PL_put_int64 e i"
| "variant_to_term e (FLOAT d) = PL_put_float e d"
| "variant_to_term e (STRING s) = PL_put_atom_chars e (utf8_get_data s)"
| "variant_to_term e (ARRAY arr) =
     (if length arr = 0 then PL_put_nil e
      else (case PL_put_nil e of
              None \<Rightarrow> None
            | Some list \<Rightarrow>
                (case cons_loop e (rev (map (variant_to_term e) arr)) list of
                   None \<Rightarrow> None
                 | Some list' \<Rightarrow> PL_put_term e list')))"
| "variant_to_term e (DICTIONARY dict) =
     (if has dict (STRING ''functor'') \<and> has dict (STRING ''args'')
      then (let functor = to_String e (dict_get dict (STRING ''functor''));
                args_arr = to_Array (dict_get dict (STRING ''args''))
            in case args_loop e (map (variant_to_term e) args_arr) of
                 None \<Rightarrow> None
               | Some args \<Rightarrow> PL_cons_functor_v e (utf8_get_data functor) args)
      else PL_put_atom_chars e ''[]'')"
| "variant_to_term e (OTHER k) = PL_put_atom_chars e ''[]''"
  by pat_completeness auto
termination
  by (relation "measure (\<lambda>(e, v). size v)") (auto simp: size_dict_get size_ARRAY_elem)

subsection \<open>\<^verbatim>\<open>term_to_variant\<close>\<close>

text \<open>
  The \<^verbatim>\<open>switch\<close> on \<^verbatim>\<open>PL_term_type\<close> is the choice of the equation: the term of each
  equation has the type of the \<^verbatim>\<open>case\<close> it stands for.
  \<open>list_loop\<close> is the loop \<^verbatim>\<open>while (PL_get_list(tail, head, tail))\<close>: it stops at the
  first tail that is no list cell, whatever that tail is.
  In the \<^verbatim>\<open>PL_TERM\<close> case the loop over the arguments is the map over them:
  \<^verbatim>\<open>PL_get_arg\<close> succeeds for every index from 1 to the arity.
\<close>

fun term_to_variant :: "term \<Rightarrow> Variant"
  and list_loop :: "term \<Rightarrow> Variant list" where
  "term_to_variant (Var v) = NIL"
| "term_to_variant (Atom a) =
     (case PL_get_atom_chars (Atom a) of None \<Rightarrow> NIL | Some s \<Rightarrow> STRING (String_of_chars s))"
| "term_to_variant (Integer n) =
     (case PL_get_int64 (Integer n) of None \<Rightarrow> NIL | Some i \<Rightarrow> INT64 i)"
| "term_to_variant (Float x) =
     (case PL_get_float (Float x) of None \<Rightarrow> NIL | Some d \<Rightarrow> FLOAT d)"
| "term_to_variant (PString x) =
     (case PL_get_string_chars (PString x) of
        None \<Rightarrow> NIL
      | Some s \<Rightarrow> STRING (String_of_chars s))"
| "term_to_variant Empty_list = ARRAY []"
| "term_to_variant (List_pair h t) = ARRAY (list_loop (List_pair h t))"
| "term_to_variant (Compound f args) =
     (case PL_get_list (Compound f args) of
        Some (head, tail) \<Rightarrow> ARRAY (term_to_variant head # list_loop tail)
      | None \<Rightarrow>
          (case PL_get_name_arity (Compound f args) of
             None \<Rightarrow> NIL
           | Some (atom_name, arity) \<Rightarrow>
               if arity = 0 \<and> atom_name = ''[]'' then ARRAY []
               else DICTIONARY
                      [(STRING ''functor'', STRING (String_of_chars atom_name)),
                       (STRING ''args'', ARRAY (map term_to_variant args))]))"
| "term_to_variant (Opaque k) = NIL"
| "list_loop (List_pair h t) = term_to_variant h # list_loop t"
| "list_loop t = []"

subsection \<open>The class state\<close>

text \<open>
  The four members of the class, and the two things it acts on: \<open>calls\<close> is the list of
  the engine calls made so far, \<open>console\<close> the lines given to Godot's \<^verbatim>\<open>push_error\<close>.
\<close>

record prologot =
  m_initialized :: bool
  m_last_error :: string
  m_on_error :: string
  m_on_warning :: string
  calls :: "call list"
  console :: "string list"

definition PL_S_EXCEPTION :: int where
  "PL_S_EXCEPTION = - 1"

definition PL_call :: "call \<Rightarrow> prologot \<Rightarrow> prologot" where
  "PL_call c st = st\<lparr>calls := calls st @ [c]\<rparr>"

definition PL_chars_to_term :: "env \<Rightarrow> string \<Rightarrow> prologot \<Rightarrow> term option \<times> prologot" where
  "PL_chars_to_term e text st = (chars_to_term e (calls st) text, PL_call (Call_chars_to_term text) st)"

definition PL_open_query :: "string \<Rightarrow> term list \<Rightarrow> prologot \<Rightarrow> prologot" where
  "PL_open_query pred args st = PL_call (Call_open_query pred args) st"

definition PL_next_solution :: "env \<Rightarrow> prologot \<Rightarrow> int \<times> prologot" where
  "PL_next_solution e st =
     (let st' = PL_call Call_next_solution st in (next_solution e (calls st'), st'))"

definition PL_close_query :: "prologot \<Rightarrow> prologot" where
  "PL_close_query st = PL_call Call_close_query st"

definition PL_cleanup :: "prologot \<Rightarrow> prologot" where
  "PL_cleanup st = PL_call Call_cleanup st"

definition PL_put_string_chars :: "env \<Rightarrow> string \<Rightarrow> term option" where
  "PL_put_string_chars e s = (if can_put e (PString s) then Some (PString s) else None)"

subsection \<open>Errors\<close>

definition push_error :: "string \<Rightarrow> string \<Rightarrow> prologot \<Rightarrow> prologot" where
  "push_error p_message p_type st =
     (let st1 = st\<lparr>m_last_error := p_message\<rparr>;
          option = (if p_type = ''warning'' then m_on_warning st1 else m_on_error st1)
      in if option = ''print'' then st1\<lparr>console := console st1 @ [''Prologot: '' @ p_message]\<rparr>
         else if option = ''halt'' then st1\<lparr>console := console st1 @ [''Prologot: '' @ p_message]\<rparr>
         else st1)"

definition handle_prolog_exception :: "env \<Rightarrow> string \<Rightarrow> prologot \<Rightarrow> bool \<times> prologot" where
  "handle_prolog_exception e p_context st =
     (case exception e (calls st) of
        None \<Rightarrow> (False, st)
      | Some ex \<Rightarrow>
          (case get_chars e ex [CVT_WRITE, CVT_EXCEPTION, BUF_DISCARDABLE] of
             None \<Rightarrow> (False, st)
           | Some exception_str \<Rightarrow>
               (True, push_error (p_context @ '' error: '' @ String_of_chars exception_str)
                        ''error'' st)))"

definition get_last_error :: "prologot \<Rightarrow> string" where
  "get_last_error st = m_last_error st"

subsection \<open>Building the goal text\<close>

text \<open>
  The removal of a trailing period, which the source writes out in \<^verbatim>\<open>build_query\<close>,
  \<^verbatim>\<open>add_fact\<close>, \<^verbatim>\<open>retract_fact\<close> and \<^verbatim>\<open>retract_all\<close>.
\<close>

definition remove_trailing_period :: "string \<Rightarrow> string" where
  "remove_trailing_period s =
     (if length s > 0 \<and> s ! (length s - 1) = CHR ''.'' then take (length s - 1) s else s)"

text \<open>
  The loop over the arguments. A String argument is appended as it is (the source tests
  whether it looks like a variable name, and appends it in both branches).
\<close>

fun build_query_loop :: "env \<Rightarrow> nat \<Rightarrow> Variant list \<Rightarrow> string \<Rightarrow> string" where
  "build_query_loop e i [] query = query"
| "build_query_loop e i (arg # rest) query =
     build_query_loop e (Suc i) rest
       ((if i > 0 then query @ '', '' else query) @
        (case arg of STRING var_name \<Rightarrow> var_name | _ \<Rightarrow> stringify e arg))"

definition build_query :: "env \<Rightarrow> string \<Rightarrow> Variant list \<Rightarrow> string" where
  "build_query e p_predicate p_args =
     (let predicate = remove_trailing_period p_predicate
      in if p_args = [] then predicate
         else build_query_loop e 0 p_args (predicate @ ''('') @ '')'')"

subsection \<open>Reading a solution\<close>

text \<open>The loop of \<^verbatim>\<open>query_all\<close> and \<^verbatim>\<open>query_one\<close> that decides on named extraction.\<close>

fun extract_vars_loop :: "bool \<Rightarrow> Variant list \<Rightarrow> bool" where
  "extract_vars_loop extract_vars [] = extract_vars"
| "extract_vars_loop extract_vars (STRING var_name # rest) =
     (if length var_name = 0 \<or>
         ((var_name ! 0 < CHR ''A'' \<or> var_name ! 0 > CHR ''Z'') \<and> var_name ! 0 \<noteq> CHR ''_'')
      then False
      else extract_vars_loop extract_vars rest)"
| "extract_vars_loop extract_vars (_ # rest) = False"

definition extract_vars :: "Variant list \<Rightarrow> bool" where
  "extract_vars p_args = extract_vars_loop (p_args \<noteq> []) p_args"

fun extract_variables_loop ::
  "env \<Rightarrow> term \<Rightarrow> nat \<Rightarrow> nat \<Rightarrow> Variant list \<Rightarrow> (Variant \<times> Variant) list \<Rightarrow> (Variant \<times> Variant) list"
where
  "extract_variables_loop e p_term arity i [] result = result"
| "extract_variables_loop e p_term arity i (v # rest) result =
     (if i < arity
      then extract_variables_loop e p_term arity (Suc i) rest
             (case PL_get_arg (i + 1) p_term of
                Some arg \<Rightarrow> AList.update (STRING (to_String e v)) (term_to_variant arg) result
              | None \<Rightarrow> result)
      else result)"

definition extract_variables :: "env \<Rightarrow> term \<Rightarrow> Variant list \<Rightarrow> (Variant \<times> Variant) list" where
  "extract_variables e p_term p_variables =
     (case PL_get_name_arity p_term of
        None \<Rightarrow> []
      | Some (name, arity) \<Rightarrow> extract_variables_loop e p_term arity 0 p_variables [])"

text \<open>The heads that \<^verbatim>\<open>while (PL_get_list(tail, head, tail))\<close> visits.\<close>

fun list_heads :: "term \<Rightarrow> term list" where
  "list_heads (List_pair h t) = h # list_heads t"
| "list_heads _ = []"

subsection \<open>Queries\<close>

definition query :: "env \<Rightarrow> prologot \<Rightarrow> string \<Rightarrow> Variant list \<Rightarrow> bool \<times> prologot" where
  "query e st p_predicate p_args =
     (if \<not> m_initialized st then (False, st)
      else let goal = build_query e p_predicate p_args
      in if goal = [] then (False, st\<lparr>m_last_error := ''Empty query''\<rparr>)
      else case PL_chars_to_term e (utf8_get_data goal) st of
        (None, st1) \<Rightarrow> (False, st1\<lparr>m_last_error := ''Failed to parse query: '' @ goal\<rparr>)
      | (Some t, st1) \<Rightarrow>
          (case PL_next_solution e (PL_open_query ''call'' [t] st1) of
             (result, st2) \<Rightarrow>
               if result = PL_S_EXCEPTION
               then (False, PL_close_query (snd (handle_prolog_exception e ''Query'' st2)))
               else (result \<noteq> 0, PL_close_query st2)))"

definition query_all :: "env \<Rightarrow> prologot \<Rightarrow> string \<Rightarrow> Variant list \<Rightarrow> Variant list \<times> prologot" where
  "query_all e st p_predicate p_args =
     (if \<not> m_initialized st then ([], st)
      else let goal = build_query e p_predicate p_args
      in if goal = [] then ([], st\<lparr>m_last_error := ''Empty query''\<rparr>)
      else let findall_goal = ''findall('' @ goal @ '', '' @ goal @ '', PrologotResults__)''
      in case PL_chars_to_term e (utf8_get_data findall_goal) st of
        (None, st1) \<Rightarrow> ([], st1\<lparr>m_last_error := ''Failed to parse query: '' @ goal\<rparr>)
      | (Some t, st1) \<Rightarrow>
          (case PL_next_solution e (PL_open_query ''call'' [t] st1) of
             (solution_result, st2) \<Rightarrow>
               if solution_result = PL_S_EXCEPTION
               then ([], PL_close_query (snd (handle_prolog_exception e ''Query all'' st2)))
               else
                 (if solution_result \<noteq> 0
                  then (case PL_get_arg 3 (bound e (calls st2) t) of
                          Some findall_term \<Rightarrow>
                            map (\<lambda>head. if extract_vars p_args
                                         then DICTIONARY (extract_variables e head p_args)
                                         else term_to_variant head)
                              (list_heads findall_term)
                        | None \<Rightarrow> [])
                  else [],
                  PL_close_query st2)))"

definition query_one :: "env \<Rightarrow> prologot \<Rightarrow> string \<Rightarrow> Variant list \<Rightarrow> Variant \<times> prologot" where
  "query_one e st p_predicate p_args =
     (if \<not> m_initialized st then (NIL, st)
      else let goal = build_query e p_predicate p_args
      in if goal = [] then (NIL, st\<lparr>m_last_error := ''Empty query''\<rparr>)
      else case PL_chars_to_term e (utf8_get_data goal) st of
        (None, st1) \<Rightarrow> (NIL, st1\<lparr>m_last_error := ''Failed to parse query: '' @ goal\<rparr>)
      | (Some t, st1) \<Rightarrow>
          (case PL_next_solution e (PL_open_query ''call'' [t] st1) of
             (result, st2) \<Rightarrow>
               if result = PL_S_EXCEPTION
               then (NIL, PL_close_query (snd (handle_prolog_exception e ''Query one'' st2)))
               else
                 (if result \<noteq> 0
                  then (if extract_vars p_args
                        then DICTIONARY (extract_variables e (bound e (calls st2) t) p_args)
                        else term_to_variant (bound e (calls st2) t))
                  else NIL,
                  PL_close_query st2)))"


subsection \<open>Dynamic assertions\<close>

definition add_fact :: "env \<Rightarrow> prologot \<Rightarrow> string \<Rightarrow> bool \<times> prologot" where
  "add_fact e st p_fact =
     (if \<not> m_initialized st then (False, st)
      else if p_fact = [] then (False, st\<lparr>m_last_error := ''Empty fact''\<rparr>)
      else let fact = remove_trailing_period p_fact
      in case PL_chars_to_term e (utf8_get_data fact) st of
        (None, st1) \<Rightarrow> (False, st1\<lparr>m_last_error := ''Failed to parse fact: '' @ fact\<rparr>)
      | (Some t, st1) \<Rightarrow>
          (case PL_next_solution e (PL_open_query ''assert'' [t] st1) of
             (result, st2) \<Rightarrow>
               if result = PL_S_EXCEPTION
               then (False, PL_close_query (snd (handle_prolog_exception e ''Assert fact'' st2)))
               else (result \<noteq> 0, PL_close_query st2)))"

definition retract_fact :: "env \<Rightarrow> prologot \<Rightarrow> string \<Rightarrow> bool \<times> prologot" where
  "retract_fact e st p_fact =
     (if \<not> m_initialized st then (False, st)
      else if p_fact = [] then (False, st\<lparr>m_last_error := ''Empty fact''\<rparr>)
      else let fact = remove_trailing_period p_fact
      in case PL_chars_to_term e (utf8_get_data fact) st of
        (None, st1) \<Rightarrow> (False, st1\<lparr>m_last_error := ''Failed to parse fact: '' @ fact\<rparr>)
      | (Some t, st1) \<Rightarrow>
          (case PL_next_solution e (PL_open_query ''retract'' [t] st1) of
             (result, st2) \<Rightarrow>
               if result = PL_S_EXCEPTION
               then (False, PL_close_query (snd (handle_prolog_exception e ''Retract fact'' st2)))
               else (result \<noteq> 0, PL_close_query st2)))"

definition retract_all :: "env \<Rightarrow> prologot \<Rightarrow> string \<Rightarrow> bool \<times> prologot" where
  "retract_all e st p_functor =
     (if \<not> m_initialized st then (False, st)
      else let functor = remove_trailing_period p_functor;
               goal = ''retractall('' @ functor @ '')''
      in query e st goal [])"

subsection \<open>Calling a predicate on converted arguments\<close>

text \<open>\<^verbatim>\<open>String::num_int64\<close> on a loop index.\<close>

fun num_int64 :: "nat \<Rightarrow> string" where
  "num_int64 n =
     (if n < 10 then [char_of (48 + n)] else num_int64 (n div 10) @ [char_of (48 + n mod 10)])"

declare num_int64.simps [simp del]

text \<open>
  The loop that fills the argument slots. The source gives the handle of
  \<^verbatim>\<open>variant_to_term\<close> to \<^verbatim>\<open>PL_put_term\<close> unchecked; a 0 handle is taken to make
  \<^verbatim>\<open>PL_put_term\<close> fail. The result is the filled slots, or the index that failed.
\<close>

fun put_args_loop :: "env \<Rightarrow> nat \<Rightarrow> Variant list \<Rightarrow> nat + term list" where
  "put_args_loop e i [] = Inr []"
| "put_args_loop e i (v # rest) =
     (case variant_to_term e v of
        None \<Rightarrow> Inl i
      | Some arg \<Rightarrow>
          (case PL_put_term e arg of
             None \<Rightarrow> Inl i
           | Some a \<Rightarrow>
               (case put_args_loop e (Suc i) rest of Inl j \<Rightarrow> Inl j | Inr as \<Rightarrow> Inr (a # as))))"

definition call_predicate :: "env \<Rightarrow> prologot \<Rightarrow> string \<Rightarrow> Variant list \<Rightarrow> bool \<times> prologot" where
  "call_predicate e st p_predicate p_args =
     (if \<not> m_initialized st then (False, st)
      else if p_predicate = [] then (False, st\<lparr>m_last_error := ''Empty predicate name''\<rparr>)
      else case put_args_loop e 0 p_args of
        Inl i \<Rightarrow> (False, st\<lparr>m_last_error := ''Failed to convert argument '' @ num_int64 i\<rparr>)
      | Inr t \<Rightarrow>
          (case PL_cons_functor_v e (utf8_get_data p_predicate) t of
             None \<Rightarrow> (False, st\<lparr>m_last_error := ''Failed to construct predicate term''\<rparr>)
           | Some goal \<Rightarrow>
               (case PL_next_solution e (PL_open_query ''call'' [goal] st) of
                  (result, st2) \<Rightarrow>
                    if result = PL_S_EXCEPTION
                    then (False,
                          PL_close_query (snd (handle_prolog_exception e ''Call predicate'' st2)))
                    else (result \<noteq> 0, PL_close_query st2))))"

text \<open>
  \<^verbatim>\<open>call_function\<close> leaves one more slot unbound (\<open>Var 0\<close>) and reads that slot after
  the solution.
\<close>

definition call_function :: "env \<Rightarrow> prologot \<Rightarrow> string \<Rightarrow> Variant list \<Rightarrow> Variant \<times> prologot" where
  "call_function e st p_predicate p_args =
     (if \<not> m_initialized st then (NIL, st)
      else if p_predicate = [] then (NIL, st\<lparr>m_last_error := ''Empty predicate name''\<rparr>)
      else case put_args_loop e 0 p_args of
        Inl i \<Rightarrow> (NIL, st\<lparr>m_last_error := ''Failed to convert argument '' @ num_int64 i\<rparr>)
      | Inr t \<Rightarrow>
          (case PL_cons_functor_v e (utf8_get_data p_predicate) (t @ [Var 0]) of
             None \<Rightarrow> (NIL, st\<lparr>m_last_error := ''Failed to construct predicate term''\<rparr>)
           | Some goal \<Rightarrow>
               (case PL_next_solution e (PL_open_query ''call'' [goal] st) of
                  (result, st2) \<Rightarrow>
                    if result = PL_S_EXCEPTION
                    then (NIL,
                          PL_close_query (snd (handle_prolog_exception e ''Call function'' st2)))
                    else (if result \<noteq> 0 then term_to_variant (bound e (calls st2) (Var 0))
                          else NIL,
                          PL_close_query st2))))"

subsection \<open>Introspection\<close>

definition predicate_exists :: "env \<Rightarrow> prologot \<Rightarrow> string \<Rightarrow> int \<Rightarrow> bool \<times> prologot" where
  "predicate_exists e st p_predicate p_arity =
     (if \<not> m_initialized st then (False, st)
      else (predicate_known e (calls st) (utf8_get_data p_predicate) p_arity, st))"

definition list_predicates :: "env \<Rightarrow> prologot \<Rightarrow> Variant list \<times> prologot" where
  "list_predicates e st =
     (if \<not> m_initialized st then ([], st)
      else query_all e st ''current_predicate(Name/Arity)'' [])"

subsection \<open>Consulting\<close>

definition begins_with :: "string \<Rightarrow> string \<Rightarrow> bool" where
  "begins_with s p = (take (length p) s = p)"

definition consult_file :: "env \<Rightarrow> prologot \<Rightarrow> string \<Rightarrow> bool \<times> prologot" where
  "consult_file e st p_filename =
     (if \<not> m_initialized st then (False, st)
      else if p_filename = [] then (False, st\<lparr>m_last_error := ''Empty filename''\<rparr>)
      else let filename =
                 (if begins_with p_filename ''res://'' \<or> begins_with p_filename ''user://''
                  then (case globalize_path e of
                          Some globalize \<Rightarrow> globalize p_filename
                        | None \<Rightarrow> p_filename)
                  else p_filename)
      in case PL_put_atom_chars e (utf8_get_data filename) of
        None \<Rightarrow> (False, st\<lparr>m_last_error := ''Failed to convert filename to Prolog atom''\<rparr>)
      | Some args \<Rightarrow>
          (case PL_next_solution e (PL_open_query ''consult'' [args] st) of
             (result, st2) \<Rightarrow>
               if result = PL_S_EXCEPTION
               then (False, PL_close_query (snd (handle_prolog_exception e ''Consult'' st2)))
               else (result \<noteq> 0, PL_close_query st2)))"

definition consult_string :: "env \<Rightarrow> prologot \<Rightarrow> string \<Rightarrow> bool \<times> prologot" where
  "consult_string e st p_prolog_code =
     (if \<not> m_initialized st then (False, st)
      else if p_prolog_code = [] then (False, st\<lparr>m_last_error := ''Empty Prolog code''\<rparr>)
      else case PL_put_string_chars e (utf8_get_data p_prolog_code) of
        None \<Rightarrow> (False, st\<lparr>m_last_error := ''Failed to convert code to Prolog string''\<rparr>)
      | Some t \<Rightarrow>
          (case PL_put_term e t of
             None \<Rightarrow> (False, st\<lparr>m_last_error := ''Failed to prepare arguments''\<rparr>)
           | Some args \<Rightarrow>
               (case PL_next_solution e (PL_open_query ''load_program_from_string'' [args] st) of
                  (result, st2) \<Rightarrow>
                    if result = PL_S_EXCEPTION
                    then (False,
                          PL_close_query (snd (handle_prolog_exception e ''Consult string'' st2)))
                    else (result \<noteq> 0, PL_close_query st2))))"


subsection \<open>Initialization and cleanup\<close>

text \<open>\<^verbatim>\<open>p_options.get(key, default)\<close> and the conversions of the value read.\<close>

definition dict_get_default :: "(Variant \<times> Variant) list \<Rightarrow> string \<Rightarrow> Variant \<Rightarrow> Variant" where
  "dict_get_default dict key p_default =
     (case map_of dict (STRING key) of Some v \<Rightarrow> v | None \<Rightarrow> p_default)"

fun to_bool :: "env \<Rightarrow> Variant \<Rightarrow> bool" where
  "to_bool e (BOOL b) = b"
| "to_bool e v = booleanize e v"

fun to_Dictionary :: "Variant \<Rightarrow> (Variant \<times> Variant) list" where
  "to_Dictionary (DICTIONARY d) = d"
| "to_Dictionary _ = []"

definition set_swi_home_dir :: "string \<Rightarrow> prologot \<Rightarrow> prologot" where
  "set_swi_home_dir p_prolog_home st =
     (if p_prolog_home = [] then st else PL_call (Call_setenv (utf8_get_data p_prolog_home)) st)"

text \<open>
  \<^verbatim>\<open>argv_list.push_back(string_storage.back().utf8().get_data())\<close>: the pointer pushed
  refers to a temporary that is gone when the statement ends.
\<close>

definition stored_chars :: "env \<Rightarrow> string \<Rightarrow> string" where
  "stored_chars e s = freed_chars e (utf8_get_data s)"

text \<open>
  A flag of the form \<^verbatim>\<open>--option=value\<close>, and a flag followed by its value, as the
  source pushes them when the value is not empty.
\<close>

definition option_with_value :: "env \<Rightarrow> string \<Rightarrow> string \<Rightarrow> string list" where
  "option_with_value e name val = (if val \<noteq> [] then [stored_chars e (name @ val)] else [])"

definition flag_and_value :: "env \<Rightarrow> string \<Rightarrow> string \<Rightarrow> string list" where
  "flag_and_value e flag val = (if val \<noteq> [] then [flag, stored_chars e val] else [])"

text \<open>The entries \<^verbatim>\<open>-D key=value\<close> and \<^verbatim>\<open>-p alias=path\<close> of a dictionary option.\<close>

definition keyed_arguments :: "env \<Rightarrow> string \<Rightarrow> (Variant \<times> Variant) list \<Rightarrow> string list" where
  "keyed_arguments e flag dict =
     concat (map (\<lambda>k. let key = to_String e k; val = to_String e (dict_get dict (STRING key))
                       in [flag, stored_chars e (key @ ''='' @ val)])
               (map fst dict))"

text \<open>
  The \<^verbatim>\<open>argv_list\<close> of \<^verbatim>\<open>initialize\<close> as the engine reads it, without its closing
  null pointer: the literals as they are, the stored texts through \<open>stored_chars\<close>.
\<close>

definition argv_list :: "env \<Rightarrow> (Variant \<times> Variant) list \<Rightarrow> string list" where
  "argv_list e p_options =
     (let quiet = to_bool e (dict_get_default p_options ''quiet'' (BOOL True));
          optimised = to_bool e (dict_get_default p_options ''optimised'' (BOOL False));
          traditional = to_bool e (dict_get_default p_options ''traditional'' (BOOL False));
          threads = to_bool e (dict_get_default p_options ''threads'' (BOOL True));
          packs = to_bool e (dict_get_default p_options ''packs'' (BOOL True));
          on_error = to_String e (dict_get_default p_options ''on error'' (STRING ''print''));
          on_warning = to_String e (dict_get_default p_options ''on warning'' (STRING ''print''));
          stack_limit = to_String e (dict_get_default p_options ''stack limit'' (STRING []));
          table_space = to_String e (dict_get_default p_options ''table space'' (STRING []));
          shared_table_space =
            to_String e (dict_get_default p_options ''shared table space'' (STRING []));
          init_file = to_String e (dict_get_default p_options ''init file'' (STRING []));
          script_file = to_String e (dict_get_default p_options ''script file'' (STRING []));
          toplevel = to_String e (dict_get_default p_options ''toplevel'' (STRING []));
          goal_var = dict_get_default p_options ''goal'' NIL
      in [''godot'']
         @ (if quiet then [''--quiet''] else [])
         @ (if optimised then [''-O''] else [])
         @ (if traditional then [''--traditional''] else [])
         @ (if \<not> threads then [''--no-threads''] else [])
         @ (if \<not> packs then [''--no-packs''] else [])
         @ (if on_error \<noteq> ''print'' then option_with_value e ''--on-error='' on_error else [])
         @ (if on_warning \<noteq> ''print'' then option_with_value e ''--on-warning='' on_warning else [])
         @ option_with_value e ''--stack-limit='' stack_limit
         @ option_with_value e ''--table-space='' table_space
         @ option_with_value e ''--shared-table-space='' shared_table_space
         @ flag_and_value e ''-f'' init_file
         @ flag_and_value e ''-l'' script_file
         @ flag_and_value e ''-t'' toplevel
         @ (case goal_var of
              STRING goal \<Rightarrow> flag_and_value e ''-g'' goal
            | ARRAY goals \<Rightarrow> concat (map (\<lambda>g. [''-g'', stored_chars e (to_String e g)]) goals)
            | _ \<Rightarrow> [])
         @ (if has p_options (STRING ''prolog flags'')
            then keyed_arguments e ''-D''
                   (to_Dictionary (dict_get_default p_options ''prolog flags'' (DICTIONARY [])))
            else [])
         @ (if has p_options (STRING ''file search paths'')
            then keyed_arguments e ''-p''
                   (to_Dictionary (dict_get_default p_options ''file search paths'' (DICTIONARY [])))
            else [])
         @ (if has p_options (STRING ''custom args'')
            then map (\<lambda>a. stored_chars e (to_String e a))
                   (to_Array (dict_get_default p_options ''custom args'' (ARRAY [])))
            else []))"

text \<open>The helper predicates that \<^verbatim>\<open>initialize\<close> asserts for \<^verbatim>\<open>consult_string\<close>.\<close>

definition predicates :: "string list" where
  "predicates =
     [''load_program_from_string(Code) :- '' @
      ''open_string(Code, Stream), '' @
      ''call_cleanup(prologot_load_clauses(Stream), close(Stream))'',
      ''prologot_load_clauses(Stream) :- '' @
      ''read_term(Stream, Term, []), '' @
      ''(Term == end_of_file -> true ; '' @
      ''prologot_process_clause(Term), prologot_load_clauses(Stream))'',
      ''prologot_process_clause((:- Goal)) :- !, call(Goal)'',
      ''prologot_process_clause((?- Goal)) :- !, call(Goal)'',
      ''prologot_process_clause(Clause) :- assertz(Clause)'']"

fun bootstrap_loop :: "env \<Rightarrow> string list \<Rightarrow> prologot \<Rightarrow> bool \<times> prologot" where
  "bootstrap_loop e [] st = (True, st)"
| "bootstrap_loop e (p # rest) st =
     (case PL_chars_to_term e p st of
        (None, st1) \<Rightarrow>
          (False,
           PL_cleanup (st1\<lparr>m_last_error :=
                              ''Failed to parse bootstrap predicate: '' @ String_of_chars p\<rparr>))
      | (Some clause, st1) \<Rightarrow>
          (case PL_next_solution e (PL_open_query ''assertz'' [clause] st1) of
             (result, st2) \<Rightarrow>
               if result = PL_S_EXCEPTION \<or> result = 0
               then (let text =
                           (case exception e (calls st2) of
                              None \<Rightarrow> String_of_chars p
                            | Some ex \<Rightarrow>
                                (case get_chars e ex [CVT_WRITE, BUF_DISCARDABLE, REP_UTF8] of
                                   None \<Rightarrow> String_of_chars p
                                 | Some msg \<Rightarrow> String_of_chars msg))
                     in (False,
                         PL_cleanup (PL_close_query
                           (st2\<lparr>m_last_error :=
                                   ''Failed to assert bootstrap predicate: '' @ text\<rparr>))))
               else bootstrap_loop e rest (PL_close_query st2)))"

definition initialize :: "env \<Rightarrow> prologot \<Rightarrow> (Variant \<times> Variant) list \<Rightarrow> bool \<times> prologot" where
  "initialize e st p_options =
     (if m_initialized st then (True, st)
      else let home = to_String e (dict_get_default p_options ''home'' (STRING []));
               on_error = to_String e (dict_get_default p_options ''on error'' (STRING ''print''));
               on_warning =
                 to_String e (dict_get_default p_options ''on warning'' (STRING ''print''));
               st1 = st\<lparr>m_on_error := on_error, m_on_warning := on_warning\<rparr>;
               st2 = set_swi_home_dir home st1;
               st3 = PL_call (Call_initialise (argv_list e p_options)) st2
      in if \<not> initialise_ok e (calls st3)
         then (case handle_prolog_exception e ''PL_initialise'' st3 of
                 (handled, st4) \<Rightarrow>
                   if \<not> handled
                   then (False,
                         st4\<lparr>m_last_error := ''PL_initialise() failed (no details available)''\<rparr>)
                   else (False, st4))
         else (case bootstrap_loop e predicates st3 of
                 (ok, st4) \<Rightarrow> if ok then (True, st4\<lparr>m_initialized := True\<rparr>) else (False, st4)))"

definition cleanup :: "prologot \<Rightarrow> prologot" where
  "cleanup st = (if m_initialized st then (PL_cleanup st)\<lparr>m_initialized := False\<rparr> else st)"

definition is_initialized :: "prologot \<Rightarrow> bool" where
  "is_initialized st = m_initialized st"

text \<open>The state the constructor leaves.\<close>

definition Prologot :: prologot where
  "Prologot =
     \<lparr>m_initialized = False, m_last_error = [], m_on_error = ''print'', m_on_warning = ''print'',
      calls = [], console = []\<rparr>"


section \<open>Properties\<close>

subsection \<open>Notions used in the statements\<close>

text \<open>An engine that has room for every term.\<close>

definition accepting :: "env \<Rightarrow> bool" where
  "accepting e = (\<forall>t. can_put e t)"

text \<open>
  The conversion as the specification words it: Null to the atom \<^verbatim>\<open>[]\<close>, a Bool to the
  atom \<^verbatim>\<open>true\<close> or \<^verbatim>\<open>false\<close>, an Int64 to an integer, a Float64 to a float, a String
  to the atom of its text, a sequence to the list folded from the empty list with the
  elements from the last to the first, a Mapping with the keys \<^verbatim>\<open>functor\<close> and
  \<^verbatim>\<open>args\<close> to the compound term of that name and the converted arguments, anything else
  to the atom \<^verbatim>\<open>[]\<close>.
\<close>

function term_from_value :: "env \<Rightarrow> Variant \<Rightarrow> term" where
  "term_from_value e NIL = Atom ''[]''"
| "term_from_value e (BOOL b) = Atom (if b then ''true'' else ''false'')"
| "term_from_value e (INT64 i) = Integer (sint i)"
| "term_from_value e (FLOAT d) = Float d"
| "term_from_value e (STRING s) = Atom (utf8_get_data s)"
| "term_from_value e (ARRAY xs) = foldr (\<lambda>x list. List_pair (term_from_value e x) list) xs Empty_list"
| "term_from_value e (DICTIONARY dict) =
     (if has dict (STRING ''functor'') \<and> has dict (STRING ''args'')
      then Compound (utf8_get_data (to_String e (dict_get dict (STRING ''functor''))))
             (map (term_from_value e) (to_Array (dict_get dict (STRING ''args''))))
      else Atom ''[]'')"
| "term_from_value e (OTHER k) = Atom ''[]''"
  by pat_completeness auto
termination
  by (relation "measure (\<lambda>(e, v). size v)") (auto simp: size_dict_get size_ARRAY_elem)

text \<open>
  The values in which every Mapping with the keys \<^verbatim>\<open>functor\<close> and \<^verbatim>\<open>args\<close> has at
  least one argument.
\<close>

function with_arguments :: "Variant \<Rightarrow> bool" where
  "with_arguments (ARRAY xs) = list_all with_arguments xs"
| "with_arguments (DICTIONARY dict) =
     (if has dict (STRING ''functor'') \<and> has dict (STRING ''args'')
      then to_Array (dict_get dict (STRING ''args'')) \<noteq> [] \<and>
           list_all with_arguments (to_Array (dict_get dict (STRING ''args'')))
      else True)"
| "with_arguments NIL = True"
| "with_arguments (BOOL _) = True"
| "with_arguments (INT64 _) = True"
| "with_arguments (FLOAT _) = True"
| "with_arguments (STRING _) = True"
| "with_arguments (OTHER _) = True"
  by pat_completeness auto
termination
  by (relation "measure size") (auto simp: size_dict_get size_ARRAY_elem)

text \<open>
  The values made of Int64, Float64, String and sequences of such, the text of every String
  being ASCII without NUL (the text that crosses the C boundary unchanged).
\<close>

fun plain :: "Variant \<Rightarrow> bool" where
  "plain (INT64 _) = True"
| "plain (FLOAT _) = True"
| "plain (STRING s) = list_all (\<lambda>c. c \<noteq> CHR 0x00 \<and> (of_char c :: nat) < 128) s"
| "plain (ARRAY xs) = list_all plain xs"
| "plain _ = False"

text \<open>An engine with room for every term, which parses nothing and solves nothing.\<close>

definition quiet_engine :: env where
  "quiet_engine =
     \<lparr>can_put = (\<lambda>t. True), stringify = (\<lambda>v. ''<value>''), booleanize = (\<lambda>v. False),
      globalize_path = None, freed_chars = (\<lambda>s. s), initialise_ok = (\<lambda>cs. True),
      chars_to_term = (\<lambda>cs s. None),
      next_solution = (\<lambda>cs. 0), bound = (\<lambda>cs t. t), exception = (\<lambda>cs. None),
      get_chars = (\<lambda>t fl. None), predicate_known = (\<lambda>cs n a. False)\<rparr>"

text \<open>
  The eligibility for named extraction as the specification words it: the list is not
  empty and every element is a String that starts with an uppercase ASCII letter or an
  underscore.
\<close>

definition names_variables :: "Variant list \<Rightarrow> bool" where
  "names_variables args =
     (args \<noteq> [] \<and>
      list_all (\<lambda>a. case a of
                  STRING s \<Rightarrow> s \<noteq> [] \<and> ((CHR ''A'' \<le> hd s \<and> hd s \<le> CHR ''Z'') \<or> hd s = CHR ''_'')
                | _ \<Rightarrow> False) args)"

text \<open>
  The calls made once a goal text was parsed into \<open>t\<close>, a query on \<open>pred\<close> opened for it
  and stepped once; \<open>solved\<close> tells a value of \<^verbatim>\<open>PL_next_solution\<close> that is neither
  a failure nor an exception.
\<close>

definition after_step :: "prologot \<Rightarrow> string \<Rightarrow> string \<Rightarrow> term \<Rightarrow> call list" where
  "after_step st goal_text pred t =
     calls st @ [Call_chars_to_term goal_text, Call_open_query pred [t], Call_next_solution]"

definition solved :: "int \<Rightarrow> bool" where
  "solved result = (result \<noteq> 0 \<and> result \<noteq> PL_S_EXCEPTION)"

text \<open>A state in which the engine is running.\<close>

definition started :: prologot where
  "started = Prologot\<lparr>m_initialized := True\<rparr>"

text \<open>
  An engine for the examples: it parses the texts of \<open>family_parser\<close>, every step finds a
  solution, and a solution instantiates a goal as \<open>family_bindings\<close> tells.
\<close>

definition family_parser :: "(string \<times> term) list" where
  "family_parser =
     [(''parent(X, Y)'', Compound ''parent'' [Var 2, Var 3]),
      (''findall(parent(X, Y), parent(X, Y), PrologotResults__)'',
       Compound ''findall''
         [Compound ''parent'' [Var 2, Var 3], Compound ''parent'' [Var 2, Var 3], Var 4]),
      (''retractall(likes(_,_))'', Compound ''retractall'' [Compound ''likes'' [Var 2, Var 3]]),
      (''foo(1)'', Compound ''foo'' [Integer 1]),
      (''foo(1).'', Compound ''foo'' [Integer 1])]"

definition family_bindings :: "(term \<times> term) list" where
  "family_bindings =
     [(Compound ''parent'' [Var 2, Var 3], Compound ''parent'' [Atom ''tom'', Atom ''bob'']),
      (Compound ''findall''
         [Compound ''parent'' [Var 2, Var 3], Compound ''parent'' [Var 2, Var 3], Var 4],
       Compound ''findall''
         [Compound ''parent'' [Var 2, Var 3], Compound ''parent'' [Var 2, Var 3],
          List_pair (Compound ''parent'' [Atom ''tom'', Atom ''bob''])
            (List_pair (Compound ''parent'' [Atom ''bob'', Atom ''ann'']) Empty_list)])]"

definition family_engine :: env where
  "family_engine =
     \<lparr>can_put = (\<lambda>t. True), stringify = (\<lambda>v. ''<value>''), booleanize = (\<lambda>v. False),
      globalize_path = None, freed_chars = (\<lambda>s. s),
      initialise_ok = (\<lambda>cs. True),
      chars_to_term = (\<lambda>cs s. map_of family_parser s),
      next_solution = (\<lambda>cs. 1),
      bound = (\<lambda>cs t. case map_of family_bindings t of Some t' \<Rightarrow> t' | None \<Rightarrow> t),
      exception = (\<lambda>cs. None),
      get_chars = (\<lambda>t fl. None), predicate_known = (\<lambda>cs n a. True)\<rparr>"

text \<open>
  \<open>well_closed opened cs\<close>: in the calls \<open>cs\<close>, made while a query is open or not as
  \<open>opened\<close> tells, a query is opened only when none is open, stepped only while it is
  open, closed only while it is open, and none is open at the end. So every opened query
  is closed once. \<open>queries_closed st st'\<close>: the calls of \<open>st'\<close> are those of \<open>st\<close> followed
  by calls that are well closed.
\<close>

fun well_closed :: "bool \<Rightarrow> call list \<Rightarrow> bool" where
  "well_closed opened [] = (\<not> opened)"
| "well_closed opened (Call_open_query pred args # cs) = (\<not> opened \<and> well_closed True cs)"
| "well_closed opened (Call_next_solution # cs) = (opened \<and> well_closed opened cs)"
| "well_closed opened (Call_close_query # cs) = (opened \<and> well_closed False cs)"
| "well_closed opened (c # cs) = well_closed opened cs"

definition queries_closed :: "prologot \<Rightarrow> prologot \<Rightarrow> bool" where
  "queries_closed st st' =
     (take (length (calls st)) (calls st') = calls st \<and>
      well_closed False (drop (length (calls st)) (calls st')))"

text \<open>An engine that parses every text as an atom and finds a solution at every step.\<close>

definition obliging_engine :: env where
  "obliging_engine =
     \<lparr>can_put = (\<lambda>t. True), stringify = (\<lambda>v. ''<value>''), booleanize = (\<lambda>v. False),
      globalize_path = None, freed_chars = (\<lambda>s. s),
      initialise_ok = (\<lambda>cs. True),
      chars_to_term = (\<lambda>cs s. Some (Atom s)),
      next_solution = (\<lambda>cs. 1), bound = (\<lambda>cs t. t), exception = (\<lambda>cs. None),
      get_chars = (\<lambda>t fl. None), predicate_known = (\<lambda>cs n a. True)\<rparr>"

text \<open>A text that ends in a period.\<close>

definition ends_with_period :: "string \<Rightarrow> bool" where
  "ends_with_period s = (s \<noteq> [] \<and> last s = CHR ''.'')"

text \<open>
  The semantics of \<^verbatim>\<open>retractall/1\<close> the specification relies on: a step of a query
  opened on \<^verbatim>\<open>call/1\<close> for a goal \<^verbatim>\<open>retractall(Pattern)\<close> does not fail.
\<close>

definition retractall_never_fails :: "env \<Rightarrow> bool" where
  "retractall_never_fails e =
     (\<forall>cs pat. next_solution e
        (cs @ [Call_open_query ''call'' [Compound ''retractall'' [pat]], Call_next_solution]) \<noteq> 0)"

text \<open>
  A term with every compound term without arguments replaced by the atom of its name, at
  every depth.
\<close>

fun nullary_as_atom :: "term \<Rightarrow> term" where
  "nullary_as_atom (Compound f args) =
     (if args = [] then Atom f else Compound f (map nullary_as_atom args))"
| "nullary_as_atom (List_pair h t) = List_pair (nullary_as_atom h) (nullary_as_atom t)"
| "nullary_as_atom t = t"

text \<open>
  The goal text built from a name taken as it is: the name alone when there are no
  arguments, the name applied to the arguments otherwise.
\<close>

definition goal_text_of :: "env \<Rightarrow> string \<Rightarrow> Variant list \<Rightarrow> string" where
  "goal_text_of e name p_args =
     (if p_args = [] then name else build_query_loop e 0 p_args (name @ ''('') @ '')'')"

text \<open>
  \<open>parse_outcome e st goal_text pred error_text neutral r\<close>: the result \<open>r\<close> is the one of
  an operation that hands exactly \<open>goal_text\<close> to the parser in the state \<open>st\<close>. If the
  parser rejects the text, \<open>r\<close> is the neutral value with that one call made and
  \<open>error_text\<close> recorded; if it gives a term, the calls are the parse, the query on
  \<open>pred\<close> opened for that term, one step and the close.
\<close>

definition parse_outcome ::
  "env \<Rightarrow> prologot \<Rightarrow> string \<Rightarrow> string \<Rightarrow> string \<Rightarrow> 'a \<Rightarrow> 'a \<times> prologot \<Rightarrow> bool" where
  "parse_outcome e st goal_text pred error_text neutral r =
     (case chars_to_term e (calls st) goal_text of
        None \<Rightarrow>
          r = (neutral,
               st\<lparr>calls := calls st @ [Call_chars_to_term goal_text], m_last_error := error_text\<rparr>)
      | Some t \<Rightarrow> calls (snd r) = after_step st goal_text pred t @ [Call_close_query])"

subsection \<open>The conversions\<close>

lemma utf8_get_data_ascii:
  "list_all (\<lambda>c. c \<noteq> CHR 0x00 \<and> (of_char c :: nat) < 128) s \<Longrightarrow> utf8_get_data s = s"
  unfolding utf8_get_data_def
  by (induction s) (auto simp: utf8_char_def)

lemma String_of_chars_ascii:
  "list_all (\<lambda>c. c \<noteq> CHR 0x00 \<and> (of_char c :: nat) < 128) s \<Longrightarrow> String_of_chars s = s"
  unfolding String_of_chars_def
  by (induction s) auto

lemma cons_loop_Some:
  "cons_loop e os acc = Some r \<Longrightarrow> \<exists>ts. os = map Some ts \<and> r = foldr List_pair (rev ts) acc"
proof (induction e os acc rule: cons_loop.induct)
  case (1 e list)
  then show ?case by simp
next
  case (2 e rest list)
  then show ?case by simp
next
  case (3 e elem rest list)
  from "3.prems" have r: "cons_loop e rest (List_pair elem list) = Some r"
    by (auto simp: PL_cons_list_def split: if_splits)
  from "3.prems" have "PL_cons_list e elem list = Some (List_pair elem list)"
    by (auto simp: PL_cons_list_def split: if_splits)
  from "3.IH" [OF this r] obtain ts where
    "rest = map Some ts" "r = foldr List_pair (rev ts) (List_pair elem list)" by blast
  then have "Some elem # rest = map Some (elem # ts) \<and> r = foldr List_pair (rev (elem # ts)) list"
    by simp
  then show ?case by (intro exI [of _ "elem # ts"])
qed

lemma cons_loop_accepting:
  "accepting e \<Longrightarrow> cons_loop e (map Some ts) acc = Some (foldr List_pair (rev ts) acc)"
  by (induction ts arbitrary: acc) (auto simp: PL_cons_list_def accepting_def)

lemma args_loop_accepting:
  "accepting e \<Longrightarrow> args_loop e (map Some ts) = Some ts"
  by (induction ts) (auto simp: PL_put_term_def accepting_def)

lemma list_loop_foldr: "list_loop (foldr List_pair ts Empty_list) = map term_to_variant ts"
  by (induction ts) auto

lemma term_to_variant_foldr: "term_to_variant (foldr List_pair ts Empty_list) = ARRAY (map term_to_variant ts)"
  by (cases ts) (auto simp: list_loop_foldr)

lemma roundtrip_aux:
  "plain v \<Longrightarrow> variant_to_term e v = Some t \<Longrightarrow> term_to_variant t = v"
proof (induction v arbitrary: t)
  case (ARRAY xs)
  show ?case
  proof (cases "xs = []")
    case True
    with ARRAY.prems show ?thesis by (auto simp: PL_put_nil_def split: if_splits)
  next
    case False
    with ARRAY.prems obtain r where
      r: "cons_loop e (rev (map (variant_to_term e) xs)) Empty_list = Some r" and t: "t = r"
      by (auto simp: PL_put_nil_def PL_put_term_def split: if_splits option.splits)
    from cons_loop_Some [OF r] obtain ts where
      ts: "rev (map (variant_to_term e) xs) = map Some ts" and r': "r = foldr List_pair (rev ts) Empty_list"
      by blast
    from ts have m: "map (variant_to_term e) xs = map Some (rev ts)"
      by (metis rev_map rev_rev_ident)
    have "map term_to_variant (rev ts) = xs"
    proof (rule nth_equalityI)
      from m show len: "length (map term_to_variant (rev ts)) = length xs"
        by (metis length_map)
      fix i assume "i < length (map term_to_variant (rev ts))"
      with len have i: "i < length xs" by simp
      from m i have "variant_to_term e (xs ! i) = Some (rev ts ! i)"
        by (metis length_map nth_map)
      moreover from i have "xs ! i \<in> set xs" by simp
      moreover from ARRAY.prems(1) i have "plain (xs ! i)" by (simp add: list_all_length)
      ultimately have "term_to_variant (rev ts ! i) = xs ! i"
        using ARRAY.IH by blast
      with i len show "map term_to_variant (rev ts) ! i = xs ! i" by simp
    qed
    with t r' show ?thesis by (simp add: term_to_variant_foldr)
  qed
next
  case (INT64 w)
  have "- (2 ^ 63) \<le> sint w" "sint w < 2 ^ 63"
    using sint_range_size [of w] by (simp_all add: word_size)
  with INT64 show ?case by (auto simp: PL_put_int64_def split: if_splits)
next
  case (STRING s)
  then show ?case
    by (auto simp: PL_put_atom_chars_def String_of_chars_ascii utf8_get_data_ascii split: if_splits)
qed (auto simp: PL_put_float_def split: if_splits)


lemma accepting_quiet_engine: "accepting quiet_engine"
  by (simp add: accepting_def quiet_engine_def)

lemma map_Some_the:
  "(\<And>x. x \<in> set xs \<Longrightarrow> \<exists>t. f x = Some t) \<Longrightarrow> map f xs = map Some (map (\<lambda>x. the (f x)) xs)"
  by (induction xs) auto

lemma variant_to_term_total:
  "accepting e \<Longrightarrow> \<exists>t. variant_to_term e v = Some t"
proof (induction e v rule: variant_to_term.induct)
  case (6 e arr)
  note acc = \<open>accepting e\<close>
  show ?case
  proof (cases "length arr = 0")
    case True
    with acc show ?thesis by (simp add: PL_put_nil_def accepting_def)
  next
    case False
    from acc have n: "PL_put_nil e = Some Empty_list"
      by (simp add: PL_put_nil_def accepting_def)
    have "map (variant_to_term e) arr = map Some (map (\<lambda>x. the (variant_to_term e x)) arr)"
      by (rule map_Some_the) (use "6.IH" [OF False n] acc in blast)
    then obtain ts where m: "rev (map (variant_to_term e) arr) = map Some ts"
      by (metis rev_map)
    from acc have p: "\<And>t. PL_put_term e t = Some t"
      by (simp add: PL_put_term_def accepting_def)
    from False show ?thesis
      by (simp add: n m cons_loop_accepting [OF acc] p)
  qed
next
  case (7 e dict)
  note acc = \<open>accepting e\<close>
  show ?case
  proof (cases "has dict (STRING ''functor'') \<and> has dict (STRING ''args'')")
    case True
    have "map (variant_to_term e) (to_Array (dict_get dict (STRING ''args''))) =
          map Some (map (\<lambda>x. the (variant_to_term e x)) (to_Array (dict_get dict (STRING ''args''))))"
      by (rule map_Some_the) (use "7.IH" [OF True refl refl] acc in blast)
    then obtain ts where
      m: "map (variant_to_term e) (to_Array (dict_get dict (STRING ''args''))) = map Some ts"
      by blast
    from acc have p: "\<And>f ts. \<exists>t. PL_cons_functor_v e f ts = Some t"
      by (simp add: PL_cons_functor_v_def accepting_def Let_def)
    from True show ?thesis
      by (simp add: m args_loop_accepting [OF acc] p)
  next
    case False
    with acc show ?thesis by (auto simp: PL_put_atom_chars_def accepting_def)
  qed
qed (auto simp: accepting_def PL_put_atom_chars_def PL_put_int64_def PL_put_float_def)

lemma map_Some_eq:
  "(\<And>x. x \<in> set xs \<Longrightarrow> f x = Some (g x)) \<Longrightarrow> map f xs = map Some (map g xs)"
  by (induction xs) auto

lemma variant_to_term_refines:
  "accepting e \<Longrightarrow> with_arguments v \<Longrightarrow> variant_to_term e v = Some (term_from_value e v)"
proof (induction e v rule: variant_to_term.induct)
  case (6 e arr)
  note acc = \<open>accepting e\<close>
  show ?case
  proof (cases "length arr = 0")
    case True
    with acc show ?thesis by (simp add: PL_put_nil_def accepting_def)
  next
    case False
    from acc have n: "PL_put_nil e = Some Empty_list"
      by (simp add: PL_put_nil_def accepting_def)
    from acc have p: "\<And>t. PL_put_term e t = Some t"
      by (simp add: PL_put_term_def accepting_def)
    define ts where "ts = map (term_from_value e) arr"
    have "map (variant_to_term e) arr = map Some (map (term_from_value e) arr)"
    proof (rule map_Some_eq)
      fix x assume x: "x \<in> set arr"
      with "6.prems"(2) have "with_arguments x" by (simp add: list_all_iff)
      with "6.IH" [OF False n x acc] show "variant_to_term e x = Some (term_from_value e x)" .
    qed
    then have m: "rev (map (variant_to_term e) arr) = map Some (rev ts)"
      by (simp only: rev_map ts_def)
    from False have lhs: "variant_to_term e (ARRAY arr) = Some (foldr List_pair ts Empty_list)"
      by (simp add: n m p cons_loop_accepting [OF acc])
    have rhs: "term_from_value e (ARRAY arr) = foldr List_pair ts Empty_list"
      by (simp add: ts_def foldr_map comp_def)
    show ?thesis
      by (simp only: lhs rhs)
  qed
next
  case (7 e dict)
  note acc = \<open>accepting e\<close>
  show ?case
  proof (cases "has dict (STRING ''functor'') \<and> has dict (STRING ''args'')")
    case True
    with "7.prems" have ne: "to_Array (dict_get dict (STRING ''args'')) \<noteq> []"
      and al: "list_all with_arguments (to_Array (dict_get dict (STRING ''args'')))"
      by simp_all
    define ts where "ts = map (term_from_value e) (to_Array (dict_get dict (STRING ''args'')))"
    have m: "map (variant_to_term e) (to_Array (dict_get dict (STRING ''args''))) = map Some ts"
      unfolding ts_def
    proof (rule map_Some_eq)
      fix x assume x: "x \<in> set (to_Array (dict_get dict (STRING ''args'')))"
      with al have "with_arguments x" by (simp add: list_all_iff)
      with "7.IH" [OF True refl refl x acc]
      show "variant_to_term e x = Some (term_from_value e x)" .
    qed
    from acc have p: "\<And>f ts. ts \<noteq> [] \<Longrightarrow> PL_cons_functor_v e f ts = Some (Compound f ts)"
      by (simp add: PL_cons_functor_v_def accepting_def Let_def)
    from ne have ne': "ts \<noteq> []" by (simp add: ts_def)
    from True have lhs: "variant_to_term e (DICTIONARY dict) =
        Some (Compound (utf8_get_data (to_String e (dict_get dict (STRING ''functor'')))) ts)"
      by (simp add: m args_loop_accepting [OF acc] p [OF ne'])
    from True have rhs: "term_from_value e (DICTIONARY dict) =
        Compound (utf8_get_data (to_String e (dict_get dict (STRING ''functor'')))) ts"
      by (simp add: ts_def)
    show ?thesis
      by (simp only: lhs rhs)
  next
    case False
    with acc show ?thesis by (auto simp: PL_put_atom_chars_def accepting_def)
  qed
qed (auto simp: accepting_def PL_put_atom_chars_def PL_put_int64_def PL_put_float_def)

lemma variant_to_term_no_arguments:
  assumes "accepting e" "has dict (STRING ''functor'')" "has dict (STRING ''args'')"
    "to_Array (dict_get dict (STRING ''args'')) = []"
  shows "variant_to_term e (DICTIONARY dict) =
         Some (Atom (utf8_get_data (to_String e (dict_get dict (STRING ''functor'')))))"
  using assms by (simp add: PL_cons_functor_v_def accepting_def)


text \<open>
  C1, as the code has it. A value made of Int64, Float64, String (ASCII text without NUL)
  and sequences of such comes back unchanged from \<^verbatim>\<open>variant_to_term\<close> followed by
  \<^verbatim>\<open>term_to_variant\<close>, and the conversion to a term succeeds when the engine has room.
  Null and Bool are not among these values: they become atoms, and an atom is read back
  as a String.
\<close>

theorem roundtrip_plain:
  assumes "plain v"
  shows "(\<forall>t. variant_to_term e v = Some t \<longrightarrow> term_to_variant t = v) \<and>
         (accepting e \<longrightarrow> variant_to_term e v \<noteq> None)"
  using assms roundtrip_aux [of v e] variant_to_term_total [of e v] by auto

theorem roundtrip_plain_witness:
  "plain (ARRAY [INT64 3, STRING ''bob'', ARRAY [FLOAT 7]]) \<and>
   accepting quiet_engine \<and>
   variant_to_term quiet_engine (ARRAY [INT64 3, STRING ''bob'', ARRAY [FLOAT 7]]) \<noteq> None \<and>
   term_to_variant
     (the (variant_to_term quiet_engine (ARRAY [INT64 3, STRING ''bob'', ARRAY [FLOAT 7]]))) =
   ARRAY [INT64 3, STRING ''bob'', ARRAY [FLOAT 7]]"
proof -
  have p: "plain (ARRAY [INT64 3, STRING ''bob'', ARRAY [FLOAT 7]])"
    by simp
  from roundtrip_plain [OF p, of quiet_engine] accepting_quiet_engine p
  show ?thesis by auto
qed

text \<open>
  C1 as stated fails on Null and Bool: the sequence of Null and true comes back as the
  sequence of the Strings \<^verbatim>\<open>[]\<close> and \<^verbatim>\<open>true\<close>.
\<close>

theorem roundtrip_null_bool_counterexample:
  "variant_to_term quiet_engine (ARRAY [NIL, BOOL True]) =
     Some (List_pair (Atom ''[]'') (List_pair (Atom ''true'') Empty_list)) \<and>
   term_to_variant (List_pair (Atom ''[]'') (List_pair (Atom ''true'') Empty_list)) =
     ARRAY [STRING ''[]'', STRING ''true''] \<and>
   ARRAY [STRING ''[]'', STRING ''true''] \<noteq> ARRAY [NIL, BOOL True]"
  by (simp add: quiet_engine_def PL_put_nil_def PL_put_atom_chars_def PL_cons_list_def
      PL_put_term_def String_of_chars_def)

lemma nullary_as_atom_foldr:
  "nullary_as_atom (foldr (\<lambda>x list. List_pair (f x) list) xs Empty_list) =
   foldr List_pair (map (\<lambda>x. nullary_as_atom (f x)) xs) Empty_list"
  by (induction xs) auto

lemma variant_to_term_everywhere:
  "accepting e \<Longrightarrow> variant_to_term e v = Some (nullary_as_atom (term_from_value e v))"
proof (induction e v rule: variant_to_term.induct)
  case (6 e arr)
  note acc = \<open>accepting e\<close>
  show ?case
  proof (cases "length arr = 0")
    case True
    with acc show ?thesis by (simp add: PL_put_nil_def accepting_def)
  next
    case False
    from acc have n: "PL_put_nil e = Some Empty_list"
      by (simp add: PL_put_nil_def accepting_def)
    from acc have p: "\<And>t. PL_put_term e t = Some t"
      by (simp add: PL_put_term_def accepting_def)
    define ts where "ts = map (\<lambda>x. nullary_as_atom (term_from_value e x)) arr"
    have "map (variant_to_term e) arr = map Some ts"
      unfolding ts_def
    proof (rule map_Some_eq)
      fix x assume x: "x \<in> set arr"
      from "6.IH" [OF False n x acc]
      show "variant_to_term e x = Some (nullary_as_atom (term_from_value e x))" .
    qed
    then have m: "rev (map (variant_to_term e) arr) = map Some (rev ts)"
      by (simp only: rev_map)
    from False have lhs: "variant_to_term e (ARRAY arr) = Some (foldr List_pair ts Empty_list)"
      by (simp add: n m p cons_loop_accepting [OF acc])
    have rhs: "nullary_as_atom (term_from_value e (ARRAY arr)) = foldr List_pair ts Empty_list"
      by (simp add: ts_def nullary_as_atom_foldr)
    show ?thesis
      by (simp only: lhs rhs)
  qed
next
  case (7 e dict)
  note acc = \<open>accepting e\<close>
  show ?case
  proof (cases "has dict (STRING ''functor'') \<and> has dict (STRING ''args'')")
    case True
    define args_arr where "args_arr = to_Array (dict_get dict (STRING ''args''))"
    define name where "name = utf8_get_data (to_String e (dict_get dict (STRING ''functor'')))"
    define ts where "ts = map (\<lambda>x. nullary_as_atom (term_from_value e x)) args_arr"
    have m: "map (variant_to_term e) args_arr = map Some ts"
      unfolding ts_def
    proof (rule map_Some_eq)
      fix x assume "x \<in> set args_arr"
      then have x: "x \<in> set (to_Array (dict_get dict (STRING ''args'')))"
        by (simp add: args_arr_def)
      from "7.IH" [OF True refl refl x acc]
      show "variant_to_term e x = Some (nullary_as_atom (term_from_value e x))" .
    qed
    from acc have p: "\<And>f ts. PL_cons_functor_v e f ts =
        Some (if ts = [] then Atom f else Compound f ts)"
      by (simp add: PL_cons_functor_v_def accepting_def Let_def)
    from True have lhs: "variant_to_term e (DICTIONARY dict) =
        Some (if ts = [] then Atom name else Compound name ts)"
      by (simp add: m [unfolded args_arr_def] args_loop_accepting [OF acc] p name_def)
    from True have rhs: "nullary_as_atom (term_from_value e (DICTIONARY dict)) =
        (if ts = [] then Atom name else Compound name ts)"
      by (simp add: ts_def args_arr_def name_def comp_def)
    show ?thesis
      by (simp only: lhs rhs)
  next
    case False
    with acc show ?thesis by (auto simp: PL_put_atom_chars_def accepting_def)
  qed
qed (auto simp: accepting_def PL_put_atom_chars_def PL_put_int64_def PL_put_float_def)

text \<open>
  C2, as the code has it. When the engine has room, \<^verbatim>\<open>variant_to_term\<close> returns, for
  every value, the term the specification describes with each compound term without
  arguments replaced by the atom of its name: a Mapping with the keys \<^verbatim>\<open>functor\<close> and
  \<^verbatim>\<open>args\<close> and no argument becomes the atom named by \<^verbatim>\<open>functor\<close>, wherever it
  stands in the value. For a value in which each such Mapping has at least one argument
  the result is the specification's term itself. The conversion has no access to the
  error slot.
\<close>

theorem variant_to_term_kinds:
  assumes "accepting e"
  shows "variant_to_term e v = Some (nullary_as_atom (term_from_value e v)) \<and>
         (with_arguments v \<longrightarrow> variant_to_term e v = Some (term_from_value e v))"
  using assms variant_to_term_everywhere [of e v] variant_to_term_refines [of e v]
  by blast

theorem variant_to_term_kinds_witness:
  "accepting quiet_engine \<and>
   with_arguments
     (DICTIONARY [(STRING ''functor'', STRING ''foo''),
                  (STRING ''args'', ARRAY [INT64 1, STRING ''bar'', ARRAY [NIL, BOOL False]])]) \<and>
   variant_to_term quiet_engine
     (DICTIONARY [(STRING ''functor'', STRING ''foo''),
                  (STRING ''args'', ARRAY [INT64 1, STRING ''bar'', ARRAY [NIL, BOOL False]])]) =
   Some (Compound ''foo''
          [Integer 1, Atom ''bar'',
           List_pair (Atom ''[]'') (List_pair (Atom ''false'') Empty_list)]) \<and>
   variant_to_term quiet_engine
     (ARRAY [DICTIONARY [(STRING ''functor'', STRING ''foo''), (STRING ''args'', ARRAY [])],
             DICTIONARY [(STRING ''functor'', STRING ''g''),
                         (STRING ''args'',
                          ARRAY [DICTIONARY [(STRING ''functor'', STRING ''h''),
                                             (STRING ''args'', ARRAY [])]])]]) =
   Some (List_pair (Atom ''foo'')
          (List_pair (Compound ''g'' [Atom ''h'']) Empty_list))"
proof -
  let ?v = "DICTIONARY [(STRING ''functor'', STRING ''foo''),
                  (STRING ''args'', ARRAY [INT64 1, STRING ''bar'', ARRAY [NIL, BOOL False]])]"
  let ?w = "ARRAY [DICTIONARY [(STRING ''functor'', STRING ''foo''), (STRING ''args'', ARRAY [])],
             DICTIONARY [(STRING ''functor'', STRING ''g''),
                         (STRING ''args'',
                          ARRAY [DICTIONARY [(STRING ''functor'', STRING ''h''),
                                             (STRING ''args'', ARRAY [])]])]]"
  have w: "with_arguments ?v"
    by (simp add: has_def dict_get_def)
  have t: "term_from_value quiet_engine ?v =
    Compound ''foo'' [Integer 1, Atom ''bar'',
           List_pair (Atom ''[]'') (List_pair (Atom ''false'') Empty_list)]"
    by (simp add: has_def dict_get_def utf8_get_data_def utf8_char_def)
  have u: "nullary_as_atom (term_from_value quiet_engine ?w) =
    List_pair (Atom ''foo'') (List_pair (Compound ''g'' [Atom ''h'']) Empty_list)"
    by (simp add: has_def dict_get_def utf8_get_data_def utf8_char_def)
  from variant_to_term_kinds [OF accepting_quiet_engine, of ?v] w
  have a: "variant_to_term quiet_engine ?v = Some (term_from_value quiet_engine ?v)"
    by blast
  from variant_to_term_kinds [OF accepting_quiet_engine, of ?w]
  have b: "variant_to_term quiet_engine ?w =
      Some (nullary_as_atom (term_from_value quiet_engine ?w))"
    by blast
  from a b w accepting_quiet_engine show ?thesis
    by (simp only: t u simp_thms)
qed


text \<open>
  C2 as stated fails on a Mapping with the two keys and an empty argument list: the
  specification's compound term without arguments is not what the engine is given.
\<close>

theorem variant_to_term_nullary_counterexample:
  "variant_to_term quiet_engine
     (DICTIONARY [(STRING ''functor'', STRING ''foo''), (STRING ''args'', ARRAY [])]) =
     Some (Atom ''foo'') \<and>
   term_from_value quiet_engine
     (DICTIONARY [(STRING ''functor'', STRING ''foo''), (STRING ''args'', ARRAY [])]) =
     Compound ''foo'' [] \<and>
   Atom ''foo'' \<noteq> Compound ''foo'' []"
  by (simp add: quiet_engine_def has_def dict_get_def PL_cons_functor_v_def utf8_get_data_def
      utf8_char_def)

subsection \<open>Named extraction\<close>

lemma extract_vars_loop_eq:
  "extract_vars_loop b args =
     (b \<and> list_all (\<lambda>a. case a of
                  STRING s \<Rightarrow> s \<noteq> [] \<and> ((CHR ''A'' \<le> hd s \<and> hd s \<le> CHR ''Z'') \<or> hd s = CHR ''_'')
                | _ \<Rightarrow> False) args)"
  by (induction b args rule: extract_vars_loop.induct) (auto simp: hd_conv_nth)

lemma extract_vars_eq: "extract_vars p_args = names_variables p_args"
  by (simp add: extract_vars_def names_variables_def extract_vars_loop_eq)


lemma query_one_solved:
  assumes "m_initialized st" "build_query e p p_args \<noteq> []"
    "chars_to_term e (calls st) (utf8_get_data (build_query e p p_args)) = Some t"
    "solved (next_solution e (after_step st (utf8_get_data (build_query e p p_args)) ''call'' t))"
  shows "fst (query_one e st p p_args) =
      (let solution = bound e (after_step st (utf8_get_data (build_query e p p_args)) ''call'' t) t
       in if names_variables p_args then DICTIONARY (extract_variables e solution p_args)
          else term_to_variant solution)"
  using assms
  by (simp add: extract_vars_eq query_one_def PL_chars_to_term_def
      PL_next_solution_def PL_open_query_def PL_call_def Let_def after_step_def solved_def)

lemma query_all_solved:
  assumes "m_initialized st" "build_query e p p_args \<noteq> []"
    "findall_goal = utf8_get_data (''findall('' @ build_query e p p_args @ '', '' @
                            build_query e p p_args @ '', PrologotResults__)'')"
    "chars_to_term e (calls st) findall_goal = Some t"
    "solved (next_solution e (after_step st findall_goal ''call'' t))"
    "PL_get_arg 3 (bound e (after_step st findall_goal ''call'' t) t) = Some results"
  shows "fst (query_all e st p p_args) =
      map (\<lambda>head. if names_variables p_args then DICTIONARY (extract_variables e head p_args)
                   else term_to_variant head)
        (list_heads results)"
  using assms
  by (simp add: extract_vars_eq query_all_def PL_chars_to_term_def
      PL_next_solution_def PL_open_query_def PL_call_def Let_def after_step_def solved_def)

text \<open>
  C3. The flag \<^verbatim>\<open>extract_vars\<close> that \<^verbatim>\<open>query_one\<close> and \<^verbatim>\<open>query_all\<close> compute is
  true exactly when the argument list is not empty and each element is a String starting
  with an uppercase ASCII letter or an underscore. On a solution, \<^verbatim>\<open>query_one\<close> returns
  the Mapping of the extracted variables if the flag is true and the conversion of the whole
  solved goal otherwise; \<^verbatim>\<open>query_all\<close> does the same for each element of the list that
  \<^verbatim>\<open>findall/3\<close> collected.
\<close>

theorem named_extraction:
  "(extract_vars p_args \<longleftrightarrow> names_variables p_args) \<and>
   (m_initialized st \<and> build_query e p p_args \<noteq> [] \<and>
    chars_to_term e (calls st) (utf8_get_data (build_query e p p_args)) = Some t \<and>
    solved (next_solution e (after_step st (utf8_get_data (build_query e p p_args)) ''call'' t))
    \<longrightarrow>
    fst (query_one e st p p_args) =
      (let solution = bound e (after_step st (utf8_get_data (build_query e p p_args)) ''call'' t) t
       in if names_variables p_args then DICTIONARY (extract_variables e solution p_args)
          else term_to_variant solution)) \<and>
   (m_initialized st \<and> build_query e p p_args \<noteq> [] \<and>
    findall_goal = utf8_get_data (''findall('' @ build_query e p p_args @ '', '' @
                            build_query e p p_args @ '', PrologotResults__)'') \<and>
    chars_to_term e (calls st) findall_goal = Some f \<and>
    solved (next_solution e (after_step st findall_goal ''call'' f)) \<and>
    PL_get_arg 3 (bound e (after_step st findall_goal ''call'' f) f) = Some results
    \<longrightarrow>
    fst (query_all e st p p_args) =
      map (\<lambda>head. if names_variables p_args then DICTIONARY (extract_variables e head p_args)
                   else term_to_variant head)
        (list_heads results))"
  using extract_vars_eq [of p_args] query_one_solved [of st e p p_args t]
    query_all_solved [of st e p p_args findall_goal f results]
  by blast

lemma build_query_parent:
  "build_query family_engine ''parent'' [STRING ''X'', STRING ''Y''] = ''parent(X, Y)''"
  by (simp add: build_query_def remove_trailing_period_def)

lemma utf8_get_data_parent: "utf8_get_data ''parent(X, Y)'' = ''parent(X, Y)''"
  by (rule utf8_get_data_ascii) simp

lemma utf8_get_data_findall:
  "utf8_get_data ''findall(parent(X, Y), parent(X, Y), PrologotResults__)'' =
   ''findall(parent(X, Y), parent(X, Y), PrologotResults__)''"
  by (rule utf8_get_data_ascii) simp

theorem named_extraction_witness:
  "names_variables [STRING ''X'', STRING ''Y''] \<and>
   m_initialized started \<and>
   fst (query_one family_engine started ''parent'' [STRING ''X'', STRING ''Y'']) =
     DICTIONARY [(STRING ''X'', STRING ''tom''), (STRING ''Y'', STRING ''bob'')] \<and>
   fst (query_all family_engine started ''parent'' [STRING ''X'', STRING ''Y'']) =
     [DICTIONARY [(STRING ''X'', STRING ''tom''), (STRING ''Y'', STRING ''bob'')],
      DICTIONARY [(STRING ''X'', STRING ''bob''), (STRING ''Y'', STRING ''ann'')]]"
proof -
  let ?args = "[STRING ''X'', STRING ''Y'']"
  let ?t = "Compound ''parent'' [Var 2, Var 3]"
  let ?f = "Compound ''findall'' [?t, ?t, Var 4]"
  let ?text = "''findall(parent(X, Y), parent(X, Y), PrologotResults__)''"
  let ?results = "List_pair (Compound ''parent'' [Atom ''tom'', Atom ''bob''])
            (List_pair (Compound ''parent'' [Atom ''bob'', Atom ''ann'']) Empty_list)"
  have n: "names_variables ?args"
    by (simp add: names_variables_def)
  have i: "m_initialized started"
    by (simp add: started_def Prologot_def)
  have p1: "chars_to_term family_engine (calls started) ''parent(X, Y)'' = Some ?t"
    by (simp add: family_engine_def family_parser_def)
  have p2: "chars_to_term family_engine (calls started) ?text = Some ?f"
    by (simp add: family_engine_def family_parser_def)
  have s: "\<And>cs. solved (next_solution family_engine cs)"
    by (simp add: family_engine_def solved_def PL_S_EXCEPTION_def)
  have b1: "\<And>cs. bound family_engine cs ?t = Compound ''parent'' [Atom ''tom'', Atom ''bob'']"
    by (simp add: family_engine_def family_bindings_def)
  have b2: "\<And>cs. bound family_engine cs ?f = Compound ''findall'' [?t, ?t, ?results]"
    by (simp add: family_engine_def family_bindings_def)
  have x1: "extract_variables family_engine (Compound ''parent'' [Atom ''tom'', Atom ''bob'']) ?args =
     [(STRING ''X'', STRING ''tom''), (STRING ''Y'', STRING ''bob'')]"
    by (simp add: extract_variables_def String_of_chars_def)
  have x2: "extract_variables family_engine (Compound ''parent'' [Atom ''bob'', Atom ''ann'']) ?args =
     [(STRING ''X'', STRING ''bob''), (STRING ''Y'', STRING ''ann'')]"
    by (simp add: extract_variables_def String_of_chars_def)
  from named_extraction [of ?args started family_engine "''parent''" ?t ?text ?f ?results]
  have one: "fst (query_one family_engine started ''parent'' ?args) =
     DICTIONARY [(STRING ''X'', STRING ''tom''), (STRING ''Y'', STRING ''bob'')]"
    by (simp add: n i p1 s b1 x1 build_query_parent utf8_get_data_parent)
  from named_extraction [of ?args started family_engine "''parent''" ?t ?text ?f ?results]
  have all: "fst (query_all family_engine started ''parent'' ?args) =
     [DICTIONARY [(STRING ''X'', STRING ''tom''), (STRING ''Y'', STRING ''bob'')],
      DICTIONARY [(STRING ''X'', STRING ''bob''), (STRING ''Y'', STRING ''ann'')]]"
    by (simp add: n i p2 s b2 x1 x2 build_query_parent utf8_get_data_findall)
  from n i one all show ?thesis by simp
qed

subsection \<open>The query protocol\<close>

lemma calls_PL_call [simp]: "calls (PL_call c st) = calls st @ [c]"
  by (simp add: PL_call_def)

lemma calls_push_error [simp]: "calls (push_error m t st) = calls st"
  by (simp add: push_error_def Let_def)

lemma calls_handle_prolog_exception [simp]:
  "calls (snd (handle_prolog_exception e c st)) = calls st"
  by (simp add: handle_prolog_exception_def split: option.splits)

lemma well_closed_append:
  "well_closed b xs \<Longrightarrow> well_closed False ys \<Longrightarrow> well_closed b (xs @ ys)"
proof (induction xs arbitrary: b)
  case Nil
  then show ?case by simp
next
  case (Cons c cs)
  then show ?case by (cases c) auto
qed

lemma queries_closedI:
  "calls st' = calls st @ new \<Longrightarrow> well_closed False new \<Longrightarrow> queries_closed st st'"
  by (simp add: queries_closed_def)

lemma queries_closed_refl [simp]: "queries_closed st st"
  by (simp add: queries_closed_def)

lemma queries_closed_last_error [simp]:
  "queries_closed st (st'\<lparr>m_last_error := m\<rparr>) = queries_closed st st'"
  by (simp add: queries_closed_def)

lemma queries_closed_initialized [simp]:
  "queries_closed st (st'\<lparr>m_initialized := b\<rparr>) = queries_closed st st'"
  by (simp add: queries_closed_def)

lemma queries_closed_trans:
  "queries_closed st st' \<Longrightarrow> queries_closed st' st'' \<Longrightarrow> queries_closed st st''"
proof -
  assume a: "queries_closed st st'" and b: "queries_closed st' st''"
  from a have 1: "calls st' = calls st @ drop (length (calls st)) (calls st')"
    by (metis append_take_drop_id queries_closed_def)
  from b have 2: "calls st'' = calls st' @ drop (length (calls st')) (calls st'')"
    by (metis append_take_drop_id queries_closed_def)
  from 1 2 have "calls st'' = calls st @
      (drop (length (calls st)) (calls st') @ drop (length (calls st')) (calls st''))"
    by (metis append_assoc)
  moreover from a b have "well_closed False
      (drop (length (calls st)) (calls st') @ drop (length (calls st')) (calls st''))"
    by (simp add: queries_closed_def well_closed_append)
  ultimately show ?thesis by (rule queries_closedI)
qed

lemmas protocol_defs =
  PL_chars_to_term_def PL_next_solution_def PL_open_query_def PL_close_query_def
  PL_cleanup_def Let_def

lemma query_closed: "queries_closed st (snd (query e st p a))"
  by (simp add: query_def queries_closed_def protocol_defs split: option.splits)

lemma query_all_closed: "queries_closed st (snd (query_all e st p a))"
  by (simp add: query_all_def queries_closed_def protocol_defs split: option.splits)

lemma query_one_closed: "queries_closed st (snd (query_one e st p a))"
  by (simp add: query_one_def queries_closed_def protocol_defs split: option.splits)

lemma add_fact_closed: "queries_closed st (snd (add_fact e st f))"
  by (simp add: add_fact_def queries_closed_def protocol_defs split: option.splits)

lemma retract_fact_closed: "queries_closed st (snd (retract_fact e st f))"
  by (simp add: retract_fact_def queries_closed_def protocol_defs split: option.splits)

lemma retract_all_closed: "queries_closed st (snd (retract_all e st f))"
  by (simp add: retract_all_def query_closed Let_def)

lemma call_predicate_closed: "queries_closed st (snd (call_predicate e st p a))"
  by (simp add: call_predicate_def queries_closed_def protocol_defs
      split: option.splits sum.splits)

lemma call_function_closed: "queries_closed st (snd (call_function e st p a))"
  by (simp add: call_function_def queries_closed_def protocol_defs
      split: option.splits sum.splits)

lemma list_predicates_closed: "queries_closed st (snd (list_predicates e st))"
  by (simp add: list_predicates_def query_all_closed)

lemma predicate_exists_closed: "queries_closed st (snd (predicate_exists e st p n))"
  by (simp add: predicate_exists_def)

lemma consult_file_closed: "queries_closed st (snd (consult_file e st f))"
  by (simp add: consult_file_def queries_closed_def protocol_defs split: option.splits)

lemma consult_string_closed: "queries_closed st (snd (consult_string e st c))"
  by (simp add: consult_string_def queries_closed_def protocol_defs split: option.splits)

lemma bootstrap_loop_closed: "queries_closed st (snd (bootstrap_loop e ps st))"
proof (induction ps arbitrary: st)
  case Nil
  then show ?case by simp
next
  case (Cons p ps)
  let ?st1 = "PL_call (Call_chars_to_term p) st"
  show ?case
  proof (cases "chars_to_term e (calls st) p")
    case None
    then show ?thesis
      by (simp add: queries_closed_def protocol_defs)
  next
    case (Some clause)
    let ?st2 = "PL_call Call_next_solution (PL_call (Call_open_query ''assertz'' [clause]) ?st1)"
    let ?r = "next_solution e (calls ?st2)"
    show ?thesis
    proof (cases "?r = PL_S_EXCEPTION \<or> ?r = 0")
      case True
      with Some show ?thesis
        by (simp add: queries_closed_def protocol_defs)
    next
      case False
      have "queries_closed st (PL_close_query ?st2)"
        by (simp add: queries_closed_def protocol_defs)
      moreover have "queries_closed (PL_close_query ?st2)
          (snd (bootstrap_loop e ps (PL_close_query ?st2)))"
        by (rule Cons.IH)
      ultimately have "queries_closed st (snd (bootstrap_loop e ps (PL_close_query ?st2)))"
        by (rule queries_closed_trans)
      with Some False show ?thesis
        by (simp add: protocol_defs)
    qed
  qed
qed

lemma initialize_closed: "queries_closed st (snd (initialize e st opts))"
proof (cases "m_initialized st")
  case True
  then show ?thesis by (simp add: initialize_def)
next
  case False
  define st3 where "st3 = PL_call (Call_initialise (argv_list e opts))
     (set_swi_home_dir (to_String e (dict_get_default opts ''home'' (STRING [])))
       (st\<lparr>m_on_error := to_String e (dict_get_default opts ''on error'' (STRING ''print'')),
           m_on_warning := to_String e (dict_get_default opts ''on warning'' (STRING ''print''))\<rparr>))"
  have a: "queries_closed st st3"
    by (simp add: st3_def queries_closed_def set_swi_home_dir_def)
  have b: "queries_closed st3 (snd (bootstrap_loop e predicates st3))"
    by (rule bootstrap_loop_closed)
  have c: "queries_closed st (snd (bootstrap_loop e predicates st3))"
    using a b by (rule queries_closed_trans)
  have d: "queries_closed st (snd (handle_prolog_exception e ''PL_initialise'' st3))"
    using a by (simp add: queries_closed_def)
  from False c d show ?thesis
    unfolding st3_def
    by (simp add: initialize_def Let_def case_prod_beta)
qed

lemma cleanup_closed: "queries_closed st (cleanup st)"
  by (simp add: cleanup_def queries_closed_def protocol_defs)


lemma query_calls:
  assumes "m_initialized st" "build_query e p a \<noteq> []"
    "chars_to_term e (calls st) (utf8_get_data (build_query e p a)) = Some t"
  shows "calls (snd (query e st p a)) =
         after_step st (utf8_get_data (build_query e p a)) ''call'' t @ [Call_close_query]"
  using assms by (simp add: query_def protocol_defs after_step_def)

lemma query_all_calls:
  assumes "m_initialized st" "build_query e p a \<noteq> []"
    "findall_goal = utf8_get_data (''findall('' @ build_query e p a @ '', '' @
                            build_query e p a @ '', PrologotResults__)'')"
    "chars_to_term e (calls st) findall_goal = Some f"
  shows "calls (snd (query_all e st p a)) =
         after_step st findall_goal ''call'' f @ [Call_close_query]"
  using assms by (simp add: query_all_def protocol_defs after_step_def)

text \<open>
  C4. Whatever the engine answers (a solution, no solution or an exception), the calls
  each operation adds are well closed: every query it opens is closed once before it
  returns. For \<^verbatim>\<open>query\<close> and \<^verbatim>\<open>query_all\<close> on a goal that parses, the calls added are
  the parse, one open, one step and one close.
\<close>

theorem queries_closed_once:
  "queries_closed st (snd (query e st p a)) \<and>
   queries_closed st (snd (query_all e st p a)) \<and>
   queries_closed st (snd (query_one e st p a)) \<and>
   queries_closed st (snd (add_fact e st p_fact)) \<and>
   queries_closed st (snd (retract_fact e st p_fact)) \<and>
   queries_closed st (snd (retract_all e st p_fact)) \<and>
   queries_closed st (snd (call_predicate e st p a)) \<and>
   queries_closed st (snd (call_function e st p a)) \<and>
   queries_closed st (snd (list_predicates e st)) \<and>
   queries_closed st (snd (consult_file e st p_fact)) \<and>
   queries_closed st (snd (consult_string e st p_fact)) \<and>
   queries_closed st (snd (initialize e st opts)) \<and>
   (m_initialized st \<and> build_query e p a \<noteq> [] \<and>
    chars_to_term e (calls st) (utf8_get_data (build_query e p a)) = Some t \<longrightarrow>
    calls (snd (query e st p a)) =
      after_step st (utf8_get_data (build_query e p a)) ''call'' t @ [Call_close_query]) \<and>
   (m_initialized st \<and> build_query e p a \<noteq> [] \<and>
    findall_goal = utf8_get_data (''findall('' @ build_query e p a @ '', '' @
                            build_query e p a @ '', PrologotResults__)'') \<and>
    chars_to_term e (calls st) findall_goal = Some f \<longrightarrow>
    calls (snd (query_all e st p a)) =
      after_step st findall_goal ''call'' f @ [Call_close_query])"
  using query_closed [of st e p a] query_all_closed [of st e p a] query_one_closed [of st e p a]
    add_fact_closed [of st e p_fact] retract_fact_closed [of st e p_fact]
    retract_all_closed [of st e p_fact] call_predicate_closed [of st e p a]
    call_function_closed [of st e p a] list_predicates_closed [of st e]
    consult_file_closed [of st e p_fact] consult_string_closed [of st e p_fact]
    initialize_closed [of st e opts] query_calls [of st e p a t]
    query_all_calls [of st e p a findall_goal f]
  by blast

theorem queries_closed_once_witness:
  "m_initialized started \<and>
   build_query family_engine ''parent'' [STRING ''X'', STRING ''Y''] \<noteq> [] \<and>
   calls (snd (query family_engine started ''parent'' [STRING ''X'', STRING ''Y''])) =
     [Call_chars_to_term ''parent(X, Y)'',
      Call_open_query ''call'' [Compound ''parent'' [Var 2, Var 3]],
      Call_next_solution, Call_close_query] \<and>
   calls (snd (query_all family_engine started ''parent'' [STRING ''X'', STRING ''Y''])) =
     [Call_chars_to_term ''findall(parent(X, Y), parent(X, Y), PrologotResults__)'',
      Call_open_query ''call''
        [Compound ''findall''
           [Compound ''parent'' [Var 2, Var 3], Compound ''parent'' [Var 2, Var 3], Var 4]],
      Call_next_solution, Call_close_query]"
proof -
  let ?args = "[STRING ''X'', STRING ''Y'']"
  let ?t = "Compound ''parent'' [Var 2, Var 3]"
  let ?f = "Compound ''findall'' [?t, ?t, Var 4]"
  let ?text = "''findall(parent(X, Y), parent(X, Y), PrologotResults__)''"
  have i: "m_initialized started"
    by (simp add: started_def Prologot_def)
  have c: "calls started = []"
    by (simp add: started_def Prologot_def)
  have p1: "chars_to_term family_engine (calls started) ''parent(X, Y)'' = Some ?t"
    by (simp add: family_engine_def family_parser_def)
  have p2: "chars_to_term family_engine (calls started) ?text = Some ?f"
    by (simp add: family_engine_def family_parser_def)
  from queries_closed_once [of started family_engine "''parent''" ?args "[]" "[]" ?t ?text ?f]
    i p1 p2
  show ?thesis
    by (simp add: c build_query_parent utf8_get_data_parent utf8_get_data_findall
        after_step_def)
qed

subsection \<open>The lifecycle\<close>

lemma m_last_error_PL_call [simp]: "m_last_error (PL_call c st) = m_last_error st"
  by (simp add: PL_call_def)

lemma m_initialized_PL_call [simp]: "m_initialized (PL_call c st) = m_initialized st"
  by (simp add: PL_call_def)

lemma m_initialized_push_error [simp]: "m_initialized (push_error m t st) = m_initialized st"
  by (simp add: push_error_def Let_def)

lemma m_initialized_handle_prolog_exception [simp]:
  "m_initialized (snd (handle_prolog_exception e c st)) = m_initialized st"
  by (simp add: handle_prolog_exception_def split: option.splits)

lemma m_initialized_set_swi_home_dir [simp]:
  "m_initialized (set_swi_home_dir h st) = m_initialized st"
  by (simp add: set_swi_home_dir_def)

lemma m_last_error_set_swi_home_dir [simp]:
  "m_last_error (set_swi_home_dir h st) = m_last_error st"
  by (simp add: set_swi_home_dir_def)

lemma bootstrap_loop_m_initialized [simp]:
  "m_initialized (snd (bootstrap_loop e ps st)) = m_initialized st"
  by (induction ps arbitrary: st) (auto simp: protocol_defs split: option.splits)

lemma bootstrap_loop_keeps_error:
  "fst (bootstrap_loop e ps st) \<Longrightarrow> m_last_error (snd (bootstrap_loop e ps st)) = m_last_error st"
  by (induction ps arbitrary: st) (auto simp: protocol_defs split: option.splits if_splits)

lemma initialize_again: "m_initialized st \<Longrightarrow> initialize e st opts = (True, st)"
  by (simp add: initialize_def)

lemma initialize_true:
  "fst (initialize e st opts) \<Longrightarrow> m_initialized (snd (initialize e st opts))"
  by (simp add: initialize_def Let_def case_prod_beta split: if_splits)

lemma initialize_false:
  "\<not> m_initialized st \<Longrightarrow> \<not> fst (initialize e st opts) \<Longrightarrow>
   \<not> m_initialized (snd (initialize e st opts))"
  by (simp add: initialize_def Let_def case_prod_beta split: if_splits)

text \<open>
  C5. Before a successful \<^verbatim>\<open>initialize\<close> every operation returns its neutral value
  (false, the empty list or Null) and leaves the state as it is; the functions are total,
  nothing is thrown. A failed \<^verbatim>\<open>initialize\<close> leaves the class uninitialized.
\<close>

theorem not_initialized_neutral:
  assumes "\<not> m_initialized st"
  shows "consult_file e st name = (False, st) \<and>
         consult_string e st code = (False, st) \<and>
         query e st p a = (False, st) \<and>
         query_all e st p a = ([], st) \<and>
         query_one e st p a = (NIL, st) \<and>
         add_fact e st p_fact = (False, st) \<and>
         retract_fact e st p_fact = (False, st) \<and>
         retract_all e st p_fact = (False, st) \<and>
         call_predicate e st p a = (False, st) \<and>
         call_function e st p a = (NIL, st) \<and>
         predicate_exists e st p n = (False, st) \<and>
         list_predicates e st = ([], st) \<and>
         cleanup st = st \<and>
         \<not> is_initialized st \<and>
         (\<not> fst (initialize e st opts) \<longrightarrow> \<not> m_initialized (snd (initialize e st opts)))"
  using assms initialize_false [of st e opts]
  by (simp add: consult_file_def consult_string_def query_def query_all_def query_one_def
      add_fact_def retract_fact_def retract_all_def call_predicate_def call_function_def
      predicate_exists_def list_predicates_def cleanup_def is_initialized_def)

theorem not_initialized_neutral_witness:
  "\<not> m_initialized Prologot \<and>
   query quiet_engine Prologot ''parent(tom, bob)'' [] = (False, Prologot) \<and>
   query_all quiet_engine Prologot ''parent'' [STRING ''X'', STRING ''Y''] = ([], Prologot) \<and>
   query_one quiet_engine Prologot ''parent'' [STRING ''X'', STRING ''Y''] = (NIL, Prologot) \<and>
   call_function quiet_engine Prologot ''plus'' [INT64 5, INT64 3] = (NIL, Prologot) \<and>
   list_predicates quiet_engine Prologot = ([], Prologot)"
proof -
  have n: "\<not> m_initialized Prologot"
    by (simp add: Prologot_def)
  from not_initialized_neutral [OF n, of quiet_engine "[]" "[]" "''parent(tom, bob)''" "[]" "[]" 0 "[]"]
    not_initialized_neutral [OF n, of quiet_engine "[]" "[]" "''parent''" "[STRING ''X'', STRING ''Y'']" "[]" 0 "[]"]
    not_initialized_neutral [OF n, of quiet_engine "[]" "[]" "''plus''" "[INT64 5, INT64 3]" "[]" 0 "[]"]
    n
  show ?thesis by simp
qed

text \<open>
  C9. \<^verbatim>\<open>initialize\<close> on an initialized class returns true and changes nothing, so a
  second call after a successful one makes no engine call; \<^verbatim>\<open>cleanup\<close> on an
  uninitialized class changes nothing, and after \<^verbatim>\<open>cleanup\<close> the class is not
  initialized.
\<close>

theorem lifecycle_idempotent:
  "(m_initialized st \<longrightarrow> initialize e st opts = (True, st)) \<and>
   (fst (initialize e st opts) \<longrightarrow>
    initialize e (snd (initialize e st opts)) opts' = (True, snd (initialize e st opts))) \<and>
   (\<not> m_initialized st \<longrightarrow> cleanup st = st) \<and>
   cleanup (cleanup st) = cleanup st \<and>
   \<not> is_initialized (cleanup st)"
  using initialize_true [of e st opts]
  by (simp add: initialize_again cleanup_def is_initialized_def)

lemma initialize_obliging: "fst (initialize obliging_engine Prologot [])"
  by (simp add: initialize_def obliging_engine_def Prologot_def Let_def dict_get_default_def
      set_swi_home_dir_def protocol_defs predicates_def PL_call_def PL_S_EXCEPTION_def)

theorem lifecycle_idempotent_witness:
  "m_initialized started \<and>
   initialize obliging_engine started [] = (True, started) \<and>
   fst (initialize obliging_engine Prologot []) \<and>
   initialize obliging_engine (snd (initialize obliging_engine Prologot [])) [] =
     (True, snd (initialize obliging_engine Prologot [])) \<and>
   \<not> m_initialized Prologot \<and>
   cleanup Prologot = Prologot \<and>
   \<not> is_initialized (cleanup started)"
proof -
  have i: "m_initialized started"
    by (simp add: started_def Prologot_def)
  have n: "\<not> m_initialized Prologot"
    by (simp add: Prologot_def)
  from lifecycle_idempotent [of started obliging_engine "[]" "[]"]
    lifecycle_idempotent [of Prologot obliging_engine "[]" "[]"]
    i n initialize_obliging
  show ?thesis by simp
qed

subsection \<open>The error slot\<close>

lemma initialize_keeps_error:
  "fst (initialize e st opts) \<Longrightarrow> m_last_error (snd (initialize e st opts)) = m_last_error st"
  by (simp add: initialize_def Let_def case_prod_beta bootstrap_loop_keeps_error split: if_splits)

lemma query_keeps_error:
  "fst (query e st p a) \<Longrightarrow> m_last_error (snd (query e st p a)) = m_last_error st"
  by (simp add: query_def protocol_defs split: option.splits if_splits)

lemma query_all_keeps_error:
  "fst (query_all e st p a) \<noteq> [] \<Longrightarrow> m_last_error (snd (query_all e st p a)) = m_last_error st"
  by (simp add: query_all_def protocol_defs split: option.splits if_splits)

lemma query_one_keeps_error:
  "fst (query_one e st p a) \<noteq> NIL \<Longrightarrow> m_last_error (snd (query_one e st p a)) = m_last_error st"
  by (simp add: query_one_def protocol_defs split: option.splits if_splits)

lemma add_fact_keeps_error:
  "fst (add_fact e st f) \<Longrightarrow> m_last_error (snd (add_fact e st f)) = m_last_error st"
  by (simp add: add_fact_def protocol_defs split: option.splits if_splits)

lemma retract_fact_keeps_error:
  "fst (retract_fact e st f) \<Longrightarrow> m_last_error (snd (retract_fact e st f)) = m_last_error st"
  by (simp add: retract_fact_def protocol_defs split: option.splits if_splits)

lemma retract_all_keeps_error:
  "fst (retract_all e st f) \<Longrightarrow> m_last_error (snd (retract_all e st f)) = m_last_error st"
  by (simp add: retract_all_def Let_def query_keeps_error split: if_splits)

lemma call_predicate_keeps_error:
  "fst (call_predicate e st p a) \<Longrightarrow>
   m_last_error (snd (call_predicate e st p a)) = m_last_error st"
  by (auto simp: call_predicate_def protocol_defs split: option.splits sum.splits if_splits)

lemma call_function_keeps_error:
  "fst (call_function e st p a) \<noteq> NIL \<Longrightarrow>
   m_last_error (snd (call_function e st p a)) = m_last_error st"
  by (auto simp: call_function_def protocol_defs split: option.splits sum.splits if_splits)

lemma consult_file_keeps_error:
  "fst (consult_file e st f) \<Longrightarrow> m_last_error (snd (consult_file e st f)) = m_last_error st"
  by (auto simp: consult_file_def protocol_defs split: option.splits if_splits)

lemma consult_string_keeps_error:
  "fst (consult_string e st c) \<Longrightarrow> m_last_error (snd (consult_string e st c)) = m_last_error st"
  by (auto simp: consult_string_def protocol_defs split: option.splits if_splits)

lemma list_predicates_keeps_error:
  "fst (list_predicates e st) \<noteq> [] \<Longrightarrow>
   m_last_error (snd (list_predicates e st)) = m_last_error st"
  by (simp add: list_predicates_def query_all_keeps_error split: if_splits)

lemma predicate_exists_state: "snd (predicate_exists e st p n) = st"
  by (simp add: predicate_exists_def)


text \<open>
  C10. An operation that succeeds (it returns true, a value that is not Null, or a list
  that is not empty) leaves the text of \<^verbatim>\<open>get_last_error\<close> as it was; so does
  \<^verbatim>\<open>cleanup\<close>. After \<^verbatim>\<open>add_fact\<close> has failed on an empty fact, a \<^verbatim>\<open>query\<close> that
  succeeds still leaves the text \<^verbatim>\<open>Empty fact\<close>.
\<close>

theorem success_keeps_last_error:
  "(fst (initialize e st opts) \<longrightarrow>
      get_last_error (snd (initialize e st opts)) = get_last_error st) \<and>
   (fst (consult_file e st name) \<longrightarrow>
      get_last_error (snd (consult_file e st name)) = get_last_error st) \<and>
   (fst (consult_string e st code) \<longrightarrow>
      get_last_error (snd (consult_string e st code)) = get_last_error st) \<and>
   (fst (query e st p a) \<longrightarrow> get_last_error (snd (query e st p a)) = get_last_error st) \<and>
   (fst (query_all e st p a) \<noteq> [] \<longrightarrow>
      get_last_error (snd (query_all e st p a)) = get_last_error st) \<and>
   (fst (query_one e st p a) \<noteq> NIL \<longrightarrow>
      get_last_error (snd (query_one e st p a)) = get_last_error st) \<and>
   (fst (add_fact e st p_fact) \<longrightarrow>
      get_last_error (snd (add_fact e st p_fact)) = get_last_error st) \<and>
   (fst (retract_fact e st p_fact) \<longrightarrow>
      get_last_error (snd (retract_fact e st p_fact)) = get_last_error st) \<and>
   (fst (retract_all e st p_fact) \<longrightarrow>
      get_last_error (snd (retract_all e st p_fact)) = get_last_error st) \<and>
   (fst (call_predicate e st p a) \<longrightarrow>
      get_last_error (snd (call_predicate e st p a)) = get_last_error st) \<and>
   (fst (call_function e st p a) \<noteq> NIL \<longrightarrow>
      get_last_error (snd (call_function e st p a)) = get_last_error st) \<and>
   (fst (list_predicates e st) \<noteq> [] \<longrightarrow>
      get_last_error (snd (list_predicates e st)) = get_last_error st) \<and>
   get_last_error (snd (predicate_exists e st p n)) = get_last_error st \<and>
   get_last_error (cleanup st) = get_last_error st \<and>
   (m_initialized st \<and> fst (query e (snd (add_fact e st [])) p a) \<longrightarrow>
      get_last_error (snd (query e (snd (add_fact e st [])) p a)) = ''Empty fact'')"
proof -
  have seq: "m_initialized st \<Longrightarrow> fst (query e (snd (add_fact e st [])) p a) \<Longrightarrow>
      m_last_error (snd (query e (snd (add_fact e st [])) p a)) = ''Empty fact''"
    using query_keeps_error [of e "snd (add_fact e st [])" p a]
    by (simp add: add_fact_def)
  have cl: "m_last_error (cleanup st) = m_last_error st"
    by (simp add: cleanup_def PL_cleanup_def)
  show ?thesis
    unfolding get_last_error_def
    using initialize_keeps_error [of e st opts] consult_file_keeps_error [of e st name]
      consult_string_keeps_error [of e st code] query_keeps_error [of e st p a]
      query_all_keeps_error [of e st p a] query_one_keeps_error [of e st p a]
      add_fact_keeps_error [of e st p_fact] retract_fact_keeps_error [of e st p_fact]
      retract_all_keeps_error [of e st p_fact] call_predicate_keeps_error [of e st p a]
      call_function_keeps_error [of e st p a] list_predicates_keeps_error [of e st]
      predicate_exists_state [of e st p n] seq cl
    by simp
qed

theorem success_keeps_last_error_witness:
  "m_initialized started \<and>
   get_last_error (snd (add_fact family_engine started [])) = ''Empty fact'' \<and>
   fst (query family_engine (snd (add_fact family_engine started []))
          ''parent'' [STRING ''X'', STRING ''Y'']) \<and>
   get_last_error
     (snd (query family_engine (snd (add_fact family_engine started []))
          ''parent'' [STRING ''X'', STRING ''Y''])) = ''Empty fact''"
proof -
  let ?args = "[STRING ''X'', STRING ''Y'']"
  have i: "m_initialized started"
    by (simp add: started_def Prologot_def)
  have a: "add_fact family_engine started [] = (False, started\<lparr>m_last_error := ''Empty fact''\<rparr>)"
    by (simp add: add_fact_def i)
  have p: "\<And>cs. chars_to_term family_engine cs ''parent(X, Y)'' =
      Some (Compound ''parent'' [Var 2, Var 3])"
    by (simp add: family_engine_def family_parser_def)
  have s: "\<And>cs. next_solution family_engine cs = 1"
    by (simp add: family_engine_def)
  have q: "fst (query family_engine (started\<lparr>m_last_error := ''Empty fact''\<rparr>) ''parent'' ?args)"
    by (simp add: query_def i build_query_parent utf8_get_data_parent protocol_defs p s
        PL_S_EXCEPTION_def)
  from success_keeps_last_error
    [of family_engine started "[]" "[]" "[]" "''parent''" ?args "[]" 0]
    i a q
  show ?thesis by (simp add: get_last_error_def)
qed


subsection \<open>Trailing periods and blank inputs\<close>

lemma remove_trailing_period_append: "remove_trailing_period (s @ ''.'') = s"
  by (simp add: remove_trailing_period_def nth_append)

lemma remove_trailing_period_unchanged:
  "\<not> ends_with_period s \<Longrightarrow> remove_trailing_period s = s"
  by (auto simp: remove_trailing_period_def ends_with_period_def last_conv_nth)

lemma build_query_retractall:
  "build_query e (''retractall('' @ x @ '')'') [] = ''retractall('' @ x @ '')''"
proof -
  have "\<not> ends_with_period (''retractall('' @ x @ '')'')"
    by (simp add: ends_with_period_def)
  then have "remove_trailing_period (''retractall('' @ x @ '')'') = ''retractall('' @ x @ '')''"
    by (rule remove_trailing_period_unchanged)
  then show ?thesis
    by (simp add: build_query_def)
qed

text \<open>
  C6. On an initialized class, when the text \<^verbatim>\<open>retractall(pattern)\<close> parses into a goal
  \<^verbatim>\<open>retractall(Pattern)\<close> and its step raises no exception, \<^verbatim>\<open>retract_all\<close> returns
  true, whatever the knowledge base holds, given that \<^verbatim>\<open>retractall/1\<close> does not fail.
\<close>

theorem retract_all_succeeds:
  assumes "m_initialized st"
    and "goal = ''retractall('' @ remove_trailing_period p_functor @ '')''"
    and "chars_to_term e (calls st) (utf8_get_data goal) = Some (Compound ''retractall'' [pat])"
    and "retractall_never_fails e"
    and "next_solution e (after_step st (utf8_get_data goal) ''call'' (Compound ''retractall'' [pat]))
           \<noteq> PL_S_EXCEPTION"
  shows "fst (retract_all e st p_functor)"
proof -
  let ?t = "Compound ''retractall'' [pat]"
  have g: "build_query e goal [] = goal"
    unfolding assms(2) by (rule build_query_retractall)
  have ne: "goal \<noteq> []"
    unfolding assms(2) by simp
  from assms(4) have "next_solution e
      ((calls st @ [Call_chars_to_term (utf8_get_data goal)]) @
       [Call_open_query ''call'' [?t], Call_next_solution]) \<noteq> 0"
    unfolding retractall_never_fails_def by blast
  then have nz: "next_solution e (after_step st (utf8_get_data goal) ''call'' ?t) \<noteq> 0"
    by (simp add: after_step_def)
  have "fst (query e st goal [])"
    using assms(1,3,5) nz ne
    by (simp add: query_def g protocol_defs after_step_def)
  with assms(1,2) show ?thesis
    by (simp add: retract_all_def Let_def)
qed

lemma utf8_get_data_retractall:
  "utf8_get_data ''retractall(likes(_,_))'' = ''retractall(likes(_,_))''"
  by (rule utf8_get_data_ascii) simp

theorem retract_all_succeeds_witness:
  "m_initialized started \<and>
   chars_to_term family_engine (calls started) (utf8_get_data ''retractall(likes(_,_))'') =
     Some (Compound ''retractall'' [Compound ''likes'' [Var 2, Var 3]]) \<and>
   retractall_never_fails family_engine \<and>
   next_solution family_engine
     (after_step started (utf8_get_data ''retractall(likes(_,_))'') ''call''
        (Compound ''retractall'' [Compound ''likes'' [Var 2, Var 3]])) \<noteq> PL_S_EXCEPTION \<and>
   fst (retract_all family_engine started ''likes(_,_)'')"
proof -
  have i: "m_initialized started"
    by (simp add: started_def Prologot_def)
  have g: "''retractall(likes(_,_))'' = ''retractall('' @ remove_trailing_period ''likes(_,_)'' @ '')''"
    by (simp add: remove_trailing_period_def)
  have p: "chars_to_term family_engine (calls started) (utf8_get_data ''retractall(likes(_,_))'') =
     Some (Compound ''retractall'' [Compound ''likes'' [Var 2, Var 3]])"
    by (simp add: utf8_get_data_retractall family_engine_def family_parser_def)
  have n: "retractall_never_fails family_engine"
    by (simp add: retractall_never_fails_def family_engine_def)
  have x: "next_solution family_engine
     (after_step started (utf8_get_data ''retractall(likes(_,_))'') ''call''
        (Compound ''retractall'' [Compound ''likes'' [Var 2, Var 3]])) \<noteq> PL_S_EXCEPTION"
    by (simp add: family_engine_def PL_S_EXCEPTION_def)
  from retract_all_succeeds [OF i g p n x] i p n x show ?thesis by blast
qed

lemma build_query_append_period:
  "\<not> ends_with_period s \<Longrightarrow> build_query e (s @ ''.'') a = build_query e s a"
  by (simp add: build_query_def remove_trailing_period_append remove_trailing_period_unchanged)

lemma build_query_period: "build_query e (s @ ''.'') a = goal_text_of e s a"
  by (simp add: build_query_def goal_text_of_def remove_trailing_period_append)

lemma add_fact_period:
  "m_initialized st \<Longrightarrow>
   parse_outcome e st (utf8_get_data s) ''assert'' (''Failed to parse fact: '' @ s) False
     (add_fact e st (s @ ''.''))"
  by (simp add: add_fact_def remove_trailing_period_append parse_outcome_def protocol_defs
      PL_call_def after_step_def split: option.splits)

lemma retract_fact_period:
  "m_initialized st \<Longrightarrow>
   parse_outcome e st (utf8_get_data s) ''retract'' (''Failed to parse fact: '' @ s) False
     (retract_fact e st (s @ ''.''))"
  by (simp add: retract_fact_def remove_trailing_period_append parse_outcome_def protocol_defs
      PL_call_def after_step_def split: option.splits)

lemma query_period:
  "m_initialized st \<Longrightarrow> goal_text_of e s a \<noteq> [] \<Longrightarrow>
   parse_outcome e st (utf8_get_data (goal_text_of e s a)) ''call''
     (''Failed to parse query: '' @ goal_text_of e s a) False (query e st (s @ ''.'') a)"
  by (simp add: query_def build_query_period parse_outcome_def protocol_defs
      PL_call_def after_step_def split: option.splits)

lemma query_one_period:
  "m_initialized st \<Longrightarrow> goal_text_of e s a \<noteq> [] \<Longrightarrow>
   parse_outcome e st (utf8_get_data (goal_text_of e s a)) ''call''
     (''Failed to parse query: '' @ goal_text_of e s a) NIL (query_one e st (s @ ''.'') a)"
  by (simp add: query_one_def build_query_period parse_outcome_def protocol_defs
      PL_call_def after_step_def split: option.splits)

lemma query_all_period:
  "m_initialized st \<Longrightarrow> goal_text_of e s a \<noteq> [] \<Longrightarrow>
   parse_outcome e st
     (utf8_get_data (''findall('' @ goal_text_of e s a @ '', '' @ goal_text_of e s a @
                      '', PrologotResults__)''))
     ''call'' (''Failed to parse query: '' @ goal_text_of e s a) [] (query_all e st (s @ ''.'') a)"
  by (simp add: query_all_def build_query_period parse_outcome_def protocol_defs
      PL_call_def after_step_def split: option.splits)

lemma query_whole_goal:
  "m_initialized st \<Longrightarrow> build_query e g [] = g \<Longrightarrow> g \<noteq> [] \<Longrightarrow>
   parse_outcome e st (utf8_get_data g) ''call'' (''Failed to parse query: '' @ g) False
     (query e st g [])"
  by (simp add: query_def parse_outcome_def protocol_defs PL_call_def after_step_def
      split: option.splits)

lemma retract_all_period:
  assumes "m_initialized st"
  shows "parse_outcome e st (utf8_get_data (''retractall('' @ s @ '')'')) ''call''
     (''Failed to parse query: '' @ ''retractall('' @ s @ '')'') False
     (retract_all e st (s @ ''.''))"
proof -
  have g: "build_query e (''retractall('' @ s @ '')'') [] = ''retractall('' @ s @ '')''"
    by (rule build_query_retractall)
  have ne: "''retractall('' @ s @ '')'' \<noteq> []"
    by simp
  have r: "retract_all e st (s @ ''.'') = query e st (''retractall('' @ s @ '')'') []"
    using assms by (simp add: retract_all_def remove_trailing_period_append)
  show ?thesis
    unfolding r by (rule query_whole_goal [OF assms g ne])
qed

lemma utf8_get_data_foo: "utf8_get_data ''foo(1).'' = ''foo(1).''"
  by (rule utf8_get_data_ascii) simp

text \<open>
  C7, as the code has it. One trailing period is removed, and only one: a text and the
  same text with a period appended have the same effect, for a fact that is not empty and
  for every goal. For every text \<open>s\<close>, ending in periods or not, each operation given
  \<open>s\<close> followed by a period hands \<open>s\<close> itself to the parser (as the fact, as the goal or
  the name of the goal, as the pattern inside \<^verbatim>\<open>retractall\<close>): of two or more trailing
  periods the others reach the parser. When the parser rejects the text the operation
  returns its neutral value and records the parse error with the periods in it; when the
  parser accepts it the operation goes on to the query.
\<close>

theorem trailing_period_stripped:
  "remove_trailing_period (s @ ''.'') = s \<and>
   (\<not> ends_with_period s \<longrightarrow> remove_trailing_period s = s) \<and>
   (s \<noteq> [] \<and> \<not> ends_with_period s \<longrightarrow>
      add_fact e st (s @ ''.'') = add_fact e st s \<and>
      retract_fact e st (s @ ''.'') = retract_fact e st s) \<and>
   (\<not> ends_with_period s \<longrightarrow>
      query e st (s @ ''.'') a = query e st s a \<and>
      query_all e st (s @ ''.'') a = query_all e st s a \<and>
      query_one e st (s @ ''.'') a = query_one e st s a \<and>
      retract_all e st (s @ ''.'') = retract_all e st s) \<and>
   (m_initialized st \<longrightarrow>
      parse_outcome e st (utf8_get_data s) ''assert'' (''Failed to parse fact: '' @ s) False
        (add_fact e st (s @ ''.'')) \<and>
      parse_outcome e st (utf8_get_data s) ''retract'' (''Failed to parse fact: '' @ s) False
        (retract_fact e st (s @ ''.'')) \<and>
      parse_outcome e st (utf8_get_data (''retractall('' @ s @ '')'')) ''call''
        (''Failed to parse query: '' @ ''retractall('' @ s @ '')'') False
        (retract_all e st (s @ ''.''))) \<and>
   (m_initialized st \<and> goal_text_of e s a \<noteq> [] \<longrightarrow>
      parse_outcome e st (utf8_get_data (goal_text_of e s a)) ''call''
        (''Failed to parse query: '' @ goal_text_of e s a) False (query e st (s @ ''.'') a) \<and>
      parse_outcome e st (utf8_get_data (goal_text_of e s a)) ''call''
        (''Failed to parse query: '' @ goal_text_of e s a) NIL (query_one e st (s @ ''.'') a) \<and>
      parse_outcome e st
        (utf8_get_data (''findall('' @ goal_text_of e s a @ '', '' @ goal_text_of e s a @
                         '', PrologotResults__)''))
        ''call'' (''Failed to parse query: '' @ goal_text_of e s a) []
        (query_all e st (s @ ''.'') a))"
proof -
  have facts: "s \<noteq> [] \<Longrightarrow> \<not> ends_with_period s \<Longrightarrow>
      add_fact e st (s @ ''.'') = add_fact e st s \<and>
      retract_fact e st (s @ ''.'') = retract_fact e st s"
    by (simp add: add_fact_def retract_fact_def remove_trailing_period_append
        remove_trailing_period_unchanged)
  have goals: "\<not> ends_with_period s \<Longrightarrow>
      query e st (s @ ''.'') a = query e st s a \<and>
      query_all e st (s @ ''.'') a = query_all e st s a \<and>
      query_one e st (s @ ''.'') a = query_one e st s a \<and>
      retract_all e st (s @ ''.'') = retract_all e st s"
    by (simp add: query_def query_all_def query_one_def retract_all_def
        build_query_append_period remove_trailing_period_append
        remove_trailing_period_unchanged)
  from facts goals remove_trailing_period_append [of s] remove_trailing_period_unchanged [of s]
    add_fact_period [of st e s] retract_fact_period [of st e s] retract_all_period [of st e s]
    query_period [of st e s a] query_one_period [of st e s a] query_all_period [of st e s a]
  show ?thesis by blast
qed

theorem trailing_period_stripped_witness:
  "''foo(1)'' \<noteq> [] \<and> \<not> ends_with_period ''foo(1)'' \<and>
   add_fact family_engine started ''foo(1).'' = add_fact family_engine started ''foo(1)'' \<and>
   query family_engine started ''foo(1).'' [] = query family_engine started ''foo(1)'' [] \<and>
   m_initialized started \<and>
   goal_text_of quiet_engine ''foo(1).'' [] \<noteq> [] \<and>
   add_fact quiet_engine started ''foo(1)..'' =
     (False, started\<lparr>calls := [Call_chars_to_term ''foo(1).''],
                      m_last_error := ''Failed to parse fact: foo(1).''\<rparr>) \<and>
   query quiet_engine started ''foo(1)..'' [] =
     (False, started\<lparr>calls := [Call_chars_to_term ''foo(1).''],
                      m_last_error := ''Failed to parse query: foo(1).''\<rparr>) \<and>
   retract_fact quiet_engine started ''foo(1)..'' =
     (False, started\<lparr>calls := [Call_chars_to_term ''foo(1).''],
                      m_last_error := ''Failed to parse fact: foo(1).''\<rparr>) \<and>
   calls (snd (add_fact family_engine started ''foo(1)..'')) =
     [Call_chars_to_term ''foo(1).'', Call_open_query ''assert'' [Compound ''foo'' [Integer 1]],
      Call_next_solution, Call_close_query]"
proof -
  have i: "m_initialized started" and c: "calls started = []"
    by (simp_all add: started_def Prologot_def)
  have n: "''foo(1)'' \<noteq> []" "\<not> ends_with_period ''foo(1)''"
    by (simp_all add: ends_with_period_def)
  have g: "goal_text_of quiet_engine ''foo(1).'' [] = ''foo(1).''"
    by (simp add: goal_text_of_def)
  have q: "\<And>cs x. chars_to_term quiet_engine cs x = None"
    by (simp add: quiet_engine_def)
  have f: "\<And>cs. chars_to_term family_engine cs ''foo(1).'' = Some (Compound ''foo'' [Integer 1])"
    by (simp add: family_engine_def family_parser_def)
  from trailing_period_stripped [of "''foo(1)''" family_engine started "[]"] n
  have same: "add_fact family_engine started ''foo(1).'' = add_fact family_engine started ''foo(1)''"
    "query family_engine started ''foo(1).'' [] = query family_engine started ''foo(1)'' []"
    by simp_all
  from trailing_period_stripped [of "''foo(1).''" quiet_engine started "[]"] i g
  have rejected:
    "add_fact quiet_engine started ''foo(1)..'' =
       (False, started\<lparr>calls := [Call_chars_to_term ''foo(1).''],
                        m_last_error := ''Failed to parse fact: foo(1).''\<rparr>)"
    "query quiet_engine started ''foo(1)..'' [] =
       (False, started\<lparr>calls := [Call_chars_to_term ''foo(1).''],
                        m_last_error := ''Failed to parse query: foo(1).''\<rparr>)"
    "retract_fact quiet_engine started ''foo(1)..'' =
       (False, started\<lparr>calls := [Call_chars_to_term ''foo(1).''],
                        m_last_error := ''Failed to parse fact: foo(1).''\<rparr>)"
    by (simp_all add: parse_outcome_def q c utf8_get_data_foo)
  from trailing_period_stripped [of "''foo(1).''" family_engine started "[]"] i
  have parsed: "calls (snd (add_fact family_engine started ''foo(1)..'')) =
     [Call_chars_to_term ''foo(1).'', Call_open_query ''assert'' [Compound ''foo'' [Integer 1]],
      Call_next_solution, Call_close_query]"
    by (simp add: parse_outcome_def f c utf8_get_data_foo after_step_def)
  from i n g same rejected parsed show ?thesis
    by simp
qed

text \<open>
  C7 as stated fails for an engine whose parser reads a term up to its closing period:
  the fact with two periods is asserted, true is returned and no error is recorded.
\<close>

theorem two_periods_accepted_counterexample:
  "fst (add_fact family_engine started ''foo(1)..'') \<and>
   get_last_error (snd (add_fact family_engine started ''foo(1)..'')) = [] \<and>
   calls (snd (add_fact family_engine started ''foo(1)..'')) =
     [Call_chars_to_term ''foo(1).'', Call_open_query ''assert'' [Compound ''foo'' [Integer 1]],
      Call_next_solution, Call_close_query]"
proof -
  have r: "remove_trailing_period ''foo(1)..'' = ''foo(1).''"
    by (simp add: remove_trailing_period_def)
  have p: "\<And>cs. chars_to_term family_engine cs ''foo(1).'' = Some (Compound ''foo'' [Integer 1])"
    by (simp add: family_engine_def family_parser_def)
  have s: "\<And>cs. next_solution family_engine cs = 1"
    by (simp add: family_engine_def)
  show ?thesis
    by (simp add: add_fact_def r p s utf8_get_data_foo protocol_defs PL_call_def
        PL_S_EXCEPTION_def get_last_error_def started_def Prologot_def)
qed

text \<open>
  C8, as the code has it. \<^verbatim>\<open>consult_file\<close>, \<^verbatim>\<open>consult_string\<close>, \<^verbatim>\<open>add_fact\<close>,
  \<^verbatim>\<open>retract_fact\<close>, \<^verbatim>\<open>call_predicate\<close> and \<^verbatim>\<open>call_function\<close> on an empty text, and
  \<^verbatim>\<open>query\<close>, \<^verbatim>\<open>query_all\<close> and \<^verbatim>\<open>query_one\<close> on an empty text or a single period
  without arguments, return the neutral value and change nothing but the error slot: no
  engine call is made.
\<close>

theorem blank_input_rejected:
  assumes "m_initialized st"
  shows "consult_file e st [] = (False, st\<lparr>m_last_error := ''Empty filename''\<rparr>) \<and>
         consult_string e st [] = (False, st\<lparr>m_last_error := ''Empty Prolog code''\<rparr>) \<and>
         add_fact e st [] = (False, st\<lparr>m_last_error := ''Empty fact''\<rparr>) \<and>
         retract_fact e st [] = (False, st\<lparr>m_last_error := ''Empty fact''\<rparr>) \<and>
         call_predicate e st [] a = (False, st\<lparr>m_last_error := ''Empty predicate name''\<rparr>) \<and>
         call_function e st [] a = (NIL, st\<lparr>m_last_error := ''Empty predicate name''\<rparr>) \<and>
         query e st [] [] = (False, st\<lparr>m_last_error := ''Empty query''\<rparr>) \<and>
         query_all e st [] [] = ([], st\<lparr>m_last_error := ''Empty query''\<rparr>) \<and>
         query_one e st [] [] = (NIL, st\<lparr>m_last_error := ''Empty query''\<rparr>) \<and>
         query e st ''.'' [] = (False, st\<lparr>m_last_error := ''Empty query''\<rparr>) \<and>
         query_all e st ''.'' [] = ([], st\<lparr>m_last_error := ''Empty query''\<rparr>) \<and>
         query_one e st ''.'' [] = (NIL, st\<lparr>m_last_error := ''Empty query''\<rparr>) \<and>
         calls (st\<lparr>m_last_error := msg\<rparr>) = calls st"
  using assms
  by (simp add: consult_file_def consult_string_def add_fact_def retract_fact_def
      call_predicate_def call_function_def query_def query_all_def query_one_def
      build_query_def remove_trailing_period_def)

theorem blank_input_rejected_witness:
  "m_initialized started \<and>
   add_fact family_engine started [] = (False, started\<lparr>m_last_error := ''Empty fact''\<rparr>) \<and>
   consult_file family_engine started [] =
     (False, started\<lparr>m_last_error := ''Empty filename''\<rparr>) \<and>
   query family_engine started [] [] = (False, started\<lparr>m_last_error := ''Empty query''\<rparr>) \<and>
   query_one family_engine started ''.'' [] = (NIL, started\<lparr>m_last_error := ''Empty query''\<rparr>)"
proof -
  have i: "m_initialized started"
    by (simp add: started_def Prologot_def)
  from blank_input_rejected [OF i, of family_engine "[]" "[]"] i
  show ?thesis by simp
qed

text \<open>
  C8 as stated fails for a query with arguments: the test of \<^verbatim>\<open>query\<close> is on the goal it
  built, which is not empty when arguments are given, so an empty predicate name with the
  argument \<^verbatim>\<open>X\<close> gives the goal \<^verbatim>\<open>(X)\<close>, and the parser of the engine is called.
\<close>

theorem query_blank_predicate_counterexample:
  "query quiet_engine started [] [STRING ''X''] =
     (False, started\<lparr>calls := [Call_chars_to_term ''(X)''],
                      m_last_error := ''Failed to parse query: (X)''\<rparr>)"
proof -
  have u: "utf8_get_data ''(X)'' = ''(X)''"
    by (rule utf8_get_data_ascii) simp
  have b: "build_query quiet_engine [] [STRING ''X''] = ''(X)''"
    by (simp add: build_query_def remove_trailing_period_def)
  have p: "\<And>cs s. chars_to_term quiet_engine cs s = None"
    by (simp add: quiet_engine_def)
  show ?thesis
    by (simp add: query_def b u p protocol_defs PL_call_def started_def Prologot_def)
qed


text \<open>
  \<^verbatim>\<open>retract_all\<close> has no test of its input, unlike \<^verbatim>\<open>add_fact\<close> and
  \<^verbatim>\<open>retract_fact\<close>: the empty pattern is wrapped into \<^verbatim>\<open>retractall()\<close> and given to
  the parser of the engine.
\<close>

lemma retract_all_blank_reaches_parser:
  "retract_all quiet_engine started [] =
     (False, started\<lparr>calls := [Call_chars_to_term ''retractall()''],
                      m_last_error := ''Failed to parse query: retractall()''\<rparr>)"
proof -
  have u: "utf8_get_data ''retractall()'' = ''retractall()''"
    by (rule utf8_get_data_ascii) simp
  have b: "build_query quiet_engine ''retractall()'' [] = ''retractall()''"
    by (simp add: build_query_def remove_trailing_period_def)
  have p: "\<And>cs s. chars_to_term quiet_engine cs s = None"
    by (simp add: quiet_engine_def)
  show ?thesis
    by (simp add: retract_all_def query_def remove_trailing_period_def b u p protocol_defs
        PL_call_def started_def Prologot_def)
qed

end
